theory Spec2Isabelle
  imports Complex_Main "HOL-Library.Char_ord" "HOL-Library.List_Lexorder"
begin

section \<open>Constants (constants.py)\<close>

definition ALLOWED_BORROW_DAYS :: int where
  "ALLOWED_BORROW_DAYS = 30"

section \<open>Dates\<close>

text \<open>
  A \<^verbatim>\<open>datetime.date\<close> is represented by its proleptic Gregorian ordinal
  (\<^verbatim>\<open>date.toordinal()\<close>): day 1 is 0001-01-01 and \<^verbatim>\<open>date.max\<close>, 9999-12-31, is
  day 3652059. Adding a \<^verbatim>\<open>timedelta(days=n)\<close> adds \<open>n\<close> to the ordinal and raises
  \<^verbatim>\<open>OverflowError\<close> when the result leaves the range of the type.
\<close>

datatype date = Date (toordinal: int)

definition MAXORDINAL :: int where
  "MAXORDINAL = 3652059"

definition valid_date :: "date \<Rightarrow> bool" where
  "valid_date d \<longleftrightarrow> 1 \<le> toordinal d \<and> toordinal d \<le> MAXORDINAL"

text \<open>The Python exceptions that the application can raise and does not catch.\<close>

datatype py_error = OverflowError | ValueError

definition date_add_days :: "date \<Rightarrow> int \<Rightarrow> py_error + date" where
  "date_add_days d n =
     (let k = toordinal d + n
      in if 0 < k \<and> k \<le> MAXORDINAL then Inr (Date k) else Inl OverflowError)"

section \<open>Data model (models.py)\<close>

text \<open>
  Every table row carries its integer primary key. \<open>last_seen\<close> is an integer column
  holding seconds since the epoch; the clock is read in whole seconds. A nullable column
  is an \<open>option\<close>. \<open>borrowed_by\<close> is the foreign key: the id of the borrowing user.
\<close>

record user =
  user_id :: int
  email :: string
  first_name :: string
  last_name :: string
  password :: string
  logged_in :: bool
  last_seen :: "int option"
  is_admin :: bool

record author =
  author_id :: int
  name :: string

record book =
  book_id :: int
  title :: string
  publication_year :: int
  average_rating :: "real option"
  ratings_count :: int
  image_url :: string
  borrowed_by :: "int option"
  borrowed_at :: "date option"

text \<open>
  The database: the three model tables in row order, and the association table of
  \<open>Book.authors\<close> as pairs (book id, author id).
\<close>

record database =
  users :: "user list"
  authors :: "author list"
  books :: "book list"
  book_author_through :: "(int \<times> int) list"

text \<open>\<^verbatim>\<open>Book.return_date\<close>; \<open>today_now\<close> is what \<^verbatim>\<open>datetime.date.today()\<close> returns.\<close>

definition return_date :: "date \<Rightarrow> book \<Rightarrow> py_error + date" where
  "return_date today_now self =
     (case borrowed_at self of
        None \<Rightarrow> Inr today_now
      | Some d \<Rightarrow> date_add_days d ALLOWED_BORROW_DAYS)"

text \<open>
  \<^verbatim>\<open>instance.save()\<close> on a row that was read from the table: an UPDATE of all columns
  of the rows with the instance's primary key.
\<close>

definition save_user :: "user \<Rightarrow> database \<Rightarrow> database" where
  "save_user u d = d\<lparr>users := map (\<lambda>r. if user_id r = user_id u then u else r) (users d)\<rparr>"

definition save_book :: "book \<Rightarrow> database \<Rightarrow> database" where
  "save_book b d = d\<lparr>books := map (\<lambda>r. if book_id r = book_id b then b else r) (books d)\<rparr>"

text \<open>
  The primary key that SQLite gives to an inserted row: one more than the largest key
  of the table, and 1 in an empty table. (Only in a table that holds the largest 64-bit
  key does SQLite look for a free key at random; the application cannot build such a
  table, and the model does not describe it.)
\<close>

definition next_id :: "int list \<Rightarrow> int" where
  "next_id ks = (case ks of [] \<Rightarrow> 1 | k # ks' \<Rightarrow> fold max ks' k + 1)"

text \<open>
  The integers that the SQLite binding accepts as a query parameter: the signed 64-bit
  ones. For any other Python \<open>int\<close> it raises \<^verbatim>\<open>OverflowError\<close>, which is not a
  database error and not \<^verbatim>\<open>DoesNotExist\<close>.
\<close>

definition sqlite_int :: "int \<Rightarrow> bool" where
  "sqlite_int k \<longleftrightarrow> - (2 ^ 63) \<le> k \<and> k < 2 ^ 63"

text \<open>
  \<^verbatim>\<open>Book.get(id=book_id)\<close>: the row with this key, \<open>None\<close> for \<^verbatim>\<open>Book.DoesNotExist\<close>,
  or the \<^verbatim>\<open>OverflowError\<close> of a key that does not fit.
\<close>

definition get_book :: "int \<Rightarrow> database \<Rightarrow> py_error + book option" where
  "get_book bid d =
     (if sqlite_int bid then Inr (find (\<lambda>b. book_id b = bid) (books d)) else Inl OverflowError)"

text \<open>
  \<^verbatim>\<open>User.create(first_name=..., last_name=..., email=..., password=...)\<close>:
  \<open>None\<close> is the \<^verbatim>\<open>IntegrityError\<close> of the unique email column; the other columns
  take their defaults.
\<close>

definition create_user :: "string \<Rightarrow> string \<Rightarrow> string \<Rightarrow> string \<Rightarrow> database \<Rightarrow> (user \<times> database) option" where
  "create_user fname lname em pw d =
     (if em \<in> set (map email (users d)) then None
      else let u = \<lparr>user_id = next_id (map user_id (users d)), email = em, first_name = fname,
                     last_name = lname, password = pw, logged_in = False, last_seen = None,
                     is_admin = False\<rparr>
           in Some (u, d\<lparr>users := users d @ [u]\<rparr>))"

section \<open>Requests and responses (server.py)\<close>

text \<open>
  \<open>redirect\<close> and \<open>abort\<close> raise: a handler that calls them ends there, and so does
  a handler in which a Python exception is raised that it does not catch (the server
  then answers with an internal error). Every \<open>save\<close> before that point stays in the
  database.
\<close>

datatype http_exc = HTTPRedirect string | HTTPError nat string | Uncaught py_error

text \<open>
  A request carries its cookies and its form fields. \<open>cookies rq n\<close> is what
  \<^verbatim>\<open>request.get_cookie(n, secret=SECRET_KEY)\<close> returns: the value of a cookie whose
  signature verifies, \<open>None\<close> otherwise.
\<close>

record request =
  cookies :: "string \<rightharpoonup> string"
  forms :: "string \<rightharpoonup> string"

text \<open>
  The environment of one request, what the handler gets from outside the application:
  \<^item> \<open>time1\<close> and \<open>time2\<close> are the first and the second reading of \<^verbatim>\<open>time.time()\<close>
    during the request, \<open>today\<close> is \<^verbatim>\<open>datetime.date.today()\<close>;
  \<^item> \<open>cookie_fits n v\<close> is the answer of the size check of \<^verbatim>\<open>response.set_cookie\<close>
    for the cookie named \<open>n\<close> with the value \<open>v\<close>: the name and the signed, encoded value
    together may have at most 3800 characters, else \<^verbatim>\<open>set_cookie\<close> raises
    \<^verbatim>\<open>ValueError\<close>. The encoding is the web framework's; it is never shorter than \<open>v\<close>;
  \<^item> \<open>group_order\<close> is the order in which the database engine hands the values of one
    group to \<^verbatim>\<open>GROUP_CONCAT\<close>, which SQLite leaves to the query plan.
\<close>

record env =
  time1 :: int
  time2 :: int
  today :: date
  cookie_fits :: "string \<Rightarrow> string \<Rightarrow> bool"
  group_order :: "string list \<Rightarrow> string list"

definition forms_get :: "request \<Rightarrow> string \<Rightarrow> string \<Rightarrow> string" where
  "forms_get rq k dflt = (case forms rq k of None \<Rightarrow> dflt | Some v \<Rightarrow> v)"

text \<open>The SQL condition \<^verbatim>\<open>(now - last_seen) < 3600\<close>; on a NULL it does not hold.\<close>

definition seen_recently :: "int \<Rightarrow> int option \<Rightarrow> bool" where
  "seen_recently now ls = (case ls of None \<Rightarrow> False | Some t \<Rightarrow> now - t < 3600)"

text \<open>
  \<open>set_logged_in_user\<close> sets the two cookies first and saves the row afterwards, so a
  cookie that does not fit ends it before anything is saved. It returns the cookies set.
\<close>

definition set_logged_in_user :: "env \<Rightarrow> user \<Rightarrow> database \<Rightarrow> (py_error + (string \<times> string) list) \<times> database" where
  "set_logged_in_user e u d =
     (if \<not> cookie_fits e ''user-email'' (email u) then (Inl ValueError, d)
      else if \<not> cookie_fits e ''password'' (password u) then (Inl ValueError, d)
      else (Inr [(''user-email'', email u), (''password'', password u)],
            save_user (u\<lparr>logged_in := True, last_seen := Some (time1 e)\<rparr>) d))"

definition get_logged_in_user :: "env \<Rightarrow> request \<Rightarrow> database \<Rightarrow> (http_exc + user) \<times> database" where
  "get_logged_in_user e rq d =
     (let user_email = cookies rq ''user-email'';
          pw = cookies rq ''password''
      in case find (\<lambda>u. Some (email u) = user_email \<and> Some (password u) = pw
                        \<and> logged_in u = True \<and> seen_recently (time1 e) (last_seen u))
                   (users d) of
           None \<Rightarrow> (Inl (HTTPRedirect ''/login''), d)
         | Some u \<Rightarrow>
             let u' = u\<lparr>last_seen := Some (time2 e)\<rparr>
             in (Inr u', save_user u' d))"

definition home :: "env \<Rightarrow> request \<Rightarrow> database \<Rightarrow> (http_exc + user \<times> date) \<times> database" where
  "home e rq d =
     (case get_logged_in_user e rq d of
        (Inl x, d1) \<Rightarrow> (Inl x, d1)
      | (Inr u, d1) \<Rightarrow> (Inr (u, today e), d1))"

text \<open>
  The query of \<open>borrow_books\<close>. The join to the association table is a LEFT OUTER
  join and the join to the author table after it an INNER join, so a row survives only
  with an author; GROUP BY gives one row per book, with the names of its authors
  concatenated by GROUP_CONCAT in the order of the engine, and ORDER BY sorts by title.
\<close>

definition book_author_names :: "database \<Rightarrow> int \<Rightarrow> string list" where
  "book_author_names d bid =
     [name a. t \<leftarrow> book_author_through d, fst t = bid, a \<leftarrow> authors d, author_id a = snd t]"

fun GROUP_CONCAT :: "string list \<Rightarrow> string" where
  "GROUP_CONCAT [] = ''''"
| "GROUP_CONCAT [x] = x"
| "GROUP_CONCAT (x # y # ys) = x @ '','' @ GROUP_CONCAT (y # ys)"

definition books_query :: "(string list \<Rightarrow> string list) \<Rightarrow> database \<Rightarrow> (book \<times> string) list" where
  "books_query arrange d =
     map (\<lambda>b. (b, GROUP_CONCAT (arrange (book_author_names d (book_id b)))))
       (filter (\<lambda>b. book_author_names d (book_id b) \<noteq> []) (sort_key title (books d)))"

definition borrow_books :: "env \<Rightarrow> request \<Rightarrow> database \<Rightarrow> (http_exc + (book \<times> string) list \<times> user) \<times> database" where
  "borrow_books e rq d =
     (case get_logged_in_user e rq d of
        (Inl x, d1) \<Rightarrow> (Inl x, d1)
      | (Inr u, d1) \<Rightarrow>
          (Inr (filter (\<lambda>row. borrowed_by (fst row) \<noteq> Some (user_id u))
                  (books_query (group_order e) d1), u), d1))"

definition borrow_book :: "env \<Rightarrow> request \<Rightarrow> int \<Rightarrow> database \<Rightarrow> (http_exc + user \<times> book \<times> string) \<times> database" where
  "borrow_book e rq bid d =
     (case get_logged_in_user e rq d of
        (Inl x, d1) \<Rightarrow> (Inl x, d1)
      | (Inr u, d1) \<Rightarrow>
          (case get_book bid d1 of
             Inl x \<Rightarrow> (Inl (Uncaught x), d1)
           | Inr None \<Rightarrow> (Inl (HTTPError 404 ''Book not found.''), d1)
           | Inr (Some b) \<Rightarrow>
               let b' = b\<lparr>borrowed_by := Some (user_id u), borrowed_at := Some (today e)\<rparr>
               in (Inr (u, b', ''30''), save_book b' d1)))"

text \<open>\<open>return_book\<close> and \<open>logout\<close> always end in a redirect, an error or an exception.\<close>

definition return_book :: "env \<Rightarrow> request \<Rightarrow> int \<Rightarrow> database \<Rightarrow> http_exc \<times> database" where
  "return_book e rq bid d =
     (case get_logged_in_user e rq d of
        (Inl x, d1) \<Rightarrow> (x, d1)
      | (Inr u, d1) \<Rightarrow>
          (case get_book bid d1 of
             Inl x \<Rightarrow> (Uncaught x, d1)
           | Inr None \<Rightarrow> (HTTPError 404 ''Book not found.'', d1)
           | Inr (Some b) \<Rightarrow>
               (HTTPRedirect ''/home'', save_book (b\<lparr>borrowed_by := None, borrowed_at := None\<rparr>) d1)))"

definition logout :: "env \<Rightarrow> request \<Rightarrow> database \<Rightarrow> http_exc \<times> database" where
  "logout e rq d =
     (case get_logged_in_user e rq d of
        (Inl x, d1) \<Rightarrow> (x, d1)
      | (Inr u, d1) \<Rightarrow> (HTTPRedirect ''/login'', save_user (u\<lparr>logged_in := False\<rparr>) d1))"

text \<open>
  The dictionary \<open>form_data\<close> that \<open>register\<close> and \<open>login\<close> give to their template
  is a map from keys to strings. The handlers that log a user in also return the
  cookies they set on the response.
\<close>

definition register_form :: "request \<Rightarrow> string \<rightharpoonup> string" where
  "register_form rq =
     [''email'' \<mapsto> forms_get rq ''email'' '''',
      ''password'' \<mapsto> forms_get rq ''password'' '''',
      ''first_name'' \<mapsto> forms_get rq ''first_name'' '''',
      ''last_name'' \<mapsto> forms_get rq ''last_name'' '''',
      ''error'' \<mapsto> '''']"

definition already_registered :: "string \<Rightarrow> string" where
  "already_registered em =
     ''User with email '' @ em @ '' already registered. Please <a href='login'/>login</a> instead''"

definition register :: "env \<Rightarrow> request \<Rightarrow> database \<Rightarrow> (http_exc + (string \<rightharpoonup> string)) \<times> (string \<times> string) list \<times> database" where
  "register e rq d =
     (let form_data = register_form rq
      in if the (form_data ''first_name'') = '''' then
           (Inr (form_data(''error'' \<mapsto> ''Please enter a First Name.'')), [], d)
         else if the (form_data ''last_name'') = '''' then
           (Inr (form_data(''error'' \<mapsto> ''Please enter a Last Name.'')), [], d)
         else if the (form_data ''email'') = '''' then
           (Inr (form_data(''error'' \<mapsto> ''Please enter an email address.'')), [], d)
         else if the (form_data ''password'') = '''' then
           (Inr (form_data(''error'' \<mapsto> ''Please enter a password.'')), [], d)
         else
           (case create_user (the (form_data ''first_name'')) (the (form_data ''last_name''))
                   (the (form_data ''email'')) (the (form_data ''password'')) d of
              None \<Rightarrow>
                (Inr (form_data(''error'' \<mapsto> already_registered (the (form_data ''email'')))), [], d)
            | Some (u, d1) \<Rightarrow>
                (case set_logged_in_user e u d1 of
                   (Inl x, d2) \<Rightarrow> (Inl (Uncaught x), [], d2)
                 | (Inr cs, d2) \<Rightarrow> (Inl (HTTPRedirect ''/home''), cs, d2))))"

definition login_form :: "request \<Rightarrow> string \<rightharpoonup> string" where
  "login_form rq =
     [''email'' \<mapsto> forms_get rq ''email'' '''',
      ''password'' \<mapsto> forms_get rq ''password'' '''',
      ''error'' \<mapsto> '''']"

definition login :: "env \<Rightarrow> request \<Rightarrow> database \<Rightarrow> (http_exc + (string \<rightharpoonup> string)) \<times> (string \<times> string) list \<times> database" where
  "login e rq d =
     (let form_data = login_form rq
      in if the (form_data ''email'') = '''' then
           (Inr (form_data(''error'' \<mapsto> ''Please enter an email address.'')), [], d)
         else if the (form_data ''password'') = '''' then
           (Inr (form_data(''error'' \<mapsto> ''Please enter a password.'')), [], d)
         else
           (case find (\<lambda>u. email u = the (form_data ''email'')
                           \<and> password u = the (form_data ''password'')) (users d) of
              Some u \<Rightarrow>
                (case set_logged_in_user e u d of
                   (Inl x, d1) \<Rightarrow> (Inl (Uncaught x), [], d1)
                 | (Inr cs, d1) \<Rightarrow> (Inl (HTTPRedirect ''/home''), cs, d1))
            | None \<Rightarrow>
                (Inr (form_data(''error'' \<mapsto> ''Bad email/password. Please try again or Register.'')),
                 [], d)))"

section \<open>Sequences of requests\<close>

text \<open>
  The routes that read or write the database, and the database after one request and
  after a sequence of requests handled one at a time.
\<close>

datatype route = Home | BorrowBooks | BorrowBook int | ReturnBook int | Logout | Register | Login

fun handle :: "env \<times> request \<times> route \<Rightarrow> database \<Rightarrow> database" where
  "handle (e, rq, Home) d = snd (home e rq d)"
| "handle (e, rq, BorrowBooks) d = snd (borrow_books e rq d)"
| "handle (e, rq, BorrowBook bid) d = snd (borrow_book e rq bid d)"
| "handle (e, rq, ReturnBook bid) d = snd (return_book e rq bid d)"
| "handle (e, rq, Logout) d = snd (logout e rq d)"
| "handle (e, rq, Register) d = snd (snd (register e rq d))"
| "handle (e, rq, Login) d = snd (snd (login e rq d))"

definition run :: "(env \<times> request \<times> route) list \<Rightarrow> database \<Rightarrow> database" where
  "run rs d = fold handle rs d"

section \<open>Properties as predicates\<close>


text \<open>
  The order of validation of the registration form as the specification words it: the
  required fields in their fixed order, each with its message; the first one that is
  empty decides.
\<close>

definition required_fields :: "(string \<times> string) list" where
  "required_fields =
     [(''first_name'', ''Please enter a First Name.''),
      (''last_name'', ''Please enter a Last Name.''),
      (''email'', ''Please enter an email address.''),
      (''password'', ''Please enter a password.'')]"

definition first_missing :: "request \<Rightarrow> string option" where
  "first_missing rq =
     map_option snd (find (\<lambda>f. forms_get rq (fst f) '''' = '''') required_fields)"

text \<open>
  The state of the user table in which the credentials \<open>em\<close> and \<open>pw\<close> open no session:
  the primary keys are distinct, the email is taken, and no row with these credentials
  is logged in.
\<close>

definition logged_out :: "string \<Rightarrow> string \<Rightarrow> database \<Rightarrow> bool" where
  "logged_out em pw d \<longleftrightarrow>
     distinct (map user_id (users d)) \<and> em \<in> set (map email (users d))
       \<and> (\<forall>r\<in>set (users d). email r = em \<and> password r = pw \<longrightarrow> \<not> logged_in r)"

text \<open>A login request with the credentials \<open>em\<close> and \<open>pw\<close>.\<close>

definition login_as :: "string \<Rightarrow> string \<Rightarrow> env \<times> request \<times> route \<Rightarrow> bool" where
  "login_as em pw r \<longleftrightarrow>
     snd (snd r) = Login \<and> forms_get (fst (snd r)) ''email'' '''' = em
       \<and> forms_get (fst (snd r)) ''password'' '''' = pw"

section \<open>Example data\<close>

definition ana :: user where
  "ana = \<lparr>user_id = 1, email = ''ana@lib.org'', first_name = ''Ana'', last_name = ''Diaz'',
          password = ''pw1'', logged_in = True, last_seen = Some 1000, is_admin = False\<rparr>"

definition bob :: user where
  "bob = \<lparr>user_id = 2, email = ''bob@lib.org'', first_name = ''Bob'', last_name = ''Sanli'',
          password = ''pw2'', logged_in = True, last_seen = Some 1000, is_admin = False\<rparr>"

definition dune :: book where
  "dune = \<lparr>book_id = 1, title = ''Dune'', publication_year = 1965, average_rating = None,
           ratings_count = 0, image_url = ''dune.png'', borrowed_by = Some 2,
           borrowed_at = Some (Date 738000)\<rparr>"

definition emma :: book where
  "emma = \<lparr>book_id = 2, title = ''Emma'', publication_year = 1815, average_rating = Some 4,
           ratings_count = 7, image_url = ''emma.png'', borrowed_by = None, borrowed_at = None\<rparr>"

text \<open>A library in which \<open>dune\<close> has an author and \<open>emma\<close> has none.\<close>

definition lib :: database where
  "lib = \<lparr>users = [ana, bob], authors = [\<lparr>author_id = 1, name = ''Frank Herbert''\<rparr>],
          books = [emma, dune], book_author_through = [(1, 1)]\<rparr>"

definition ana_rq :: request where
  "ana_rq = \<lparr>cookies = [''user-email'' \<mapsto> ''ana@lib.org'', ''password'' \<mapsto> ''pw1''],
             forms = Map.empty\<rparr>"

definition ana_login :: request where
  "ana_login = \<lparr>cookies = Map.empty,
                forms = [''email'' \<mapsto> ''ana@lib.org'', ''password'' \<mapsto> ''pw1'']\<rparr>"

definition ana_again :: request where
  "ana_again = \<lparr>cookies = Map.empty,
                forms = [''first_name'' \<mapsto> ''Ana'', ''last_name'' \<mapsto> ''Diaz'',
                         ''email'' \<mapsto> ''ana@lib.org'', ''password'' \<mapsto> ''pw9'']\<rparr>"

text \<open>A registration form without a last name and with an empty email.\<close>

definition cy_rq :: request where
  "cy_rq = \<lparr>cookies = Map.empty,
            forms = [''first_name'' \<mapsto> ''Cy'', ''email'' \<mapsto> '''', ''password'' \<mapsto> ''pw3'']\<rparr>"

text \<open>
  A user whose password has 5000 characters, more than any cookie holds, and the login
  form with these credentials.
\<close>

definition zed :: user where
  "zed = \<lparr>user_id = 3, email = ''zed@lib.org'', first_name = ''Zed'', last_name = ''Ng'',
          password = replicate 5000 (CHR ''x''), logged_in = False, last_seen = None,
          is_admin = False\<rparr>"

definition zed_login :: request where
  "zed_login = \<lparr>cookies = Map.empty,
                forms = [''email'' \<mapsto> ''zed@lib.org'', ''password'' \<mapsto> replicate 5000 (CHR ''x'')]\<rparr>"

text \<open>
  The environment of the examples. Its size check goes by the length of the name and of
  the value themselves, with a bound of 1000; on the examples it answers as the check of
  the framework does: their short values fit, and a value of 5000 characters does not.
  The names of a group come in the order of the association rows.
\<close>

definition env0 :: env where
  "env0 = \<lparr>time1 = 2000, time2 = 2001, today = Date 738100,
           cookie_fits = (\<lambda>n v. length n + length v \<le> 1000), group_order = (\<lambda>ns. ns)\<rparr>"

section \<open>Auxiliary facts\<close>

lemma find_SomeD: "find P xs = Some x \<Longrightarrow> x \<in> set xs \<and> P x"
  by (induction xs) (auto split: if_splits)

lemma find_unique:
  assumes "x \<in> set xs" and "P x" and "\<forall>y\<in>set xs. P y \<longrightarrow> y = x"
  shows "find P xs = Some x"
  using assms
proof (induction xs)
  case Nil
  then show ?case by simp
next
  case (Cons a xs)
  show ?case
  proof (cases "P a")
    case True
    with Cons.prems(3) have "a = x" by simp
    with True show ?thesis by simp
  next
    case False
    with Cons.prems(1,2) have "x \<in> set xs" by auto
    moreover from Cons.prems(3) have "\<forall>y\<in>set xs. P y \<longrightarrow> y = x" by simp
    ultimately have "find P xs = Some x" using Cons.IH Cons.prems(2) by blast
    with False show ?thesis by simp
  qed
qed

lemma distinct_map_eqD:
  "distinct (map f xs) \<Longrightarrow> x \<in> set xs \<Longrightarrow> y \<in> set xs \<Longrightarrow> f x = f y \<Longrightarrow> x = y"
  using inj_onD [of f "set xs" x y] by (simp add: distinct_map)

lemma get_logged_in_user_Inl:
  "get_logged_in_user e rq d = (Inl x, d1) \<Longrightarrow> x = HTTPRedirect ''/login'' \<and> d1 = d"
  by (auto simp: get_logged_in_user_def Let_def split: option.splits)

lemma get_logged_in_user_Inr:
  assumes "get_logged_in_user e rq d = (Inr u, d1)"
  shows "\<exists>u0\<in>set (users d). logged_in u0 \<and> Some (email u0) = cookies rq ''user-email''
           \<and> Some (password u0) = cookies rq ''password''
           \<and> seen_recently (time1 e) (last_seen u0)
           \<and> u = u0\<lparr>last_seen := Some (time2 e)\<rparr> \<and> d1 = save_user u d"
proof -
  let ?P = "\<lambda>r. Some (email r) = cookies rq ''user-email'' \<and> Some (password r) = cookies rq ''password''
                 \<and> logged_in r = True \<and> seen_recently (time1 e) (last_seen r)"
  from assms obtain u0 where f: "find ?P (users d) = Some u0"
    by (cases "find ?P (users d)") (simp_all add: get_logged_in_user_def)
  let ?A = "u0\<lparr>last_seen := Some (time2 e)\<rparr>"
  from f have "get_logged_in_user e rq d = (Inr ?A, save_user ?A d)"
    by (simp add: get_logged_in_user_def Let_def)
  with assms [symmetric] have eq: "((Inr u, d1) :: (http_exc + user) \<times> database) = (Inr ?A, save_user ?A d)"
    by (rule trans)
  then have u: "u = ?A" and d1: "d1 = save_user ?A d"
    by simp_all
  from d1 u have d1': "d1 = save_user u d" by simp
  from find_SomeD [OF f] have mem: "u0 \<in> set (users d)" and p: "?P u0"
    by (rule conjunct1, rule conjunct2)
  from p u d1' have "logged_in u0 \<and> Some (email u0) = cookies rq ''user-email''
           \<and> Some (password u0) = cookies rq ''password''
           \<and> seen_recently (time1 e) (last_seen u0)
           \<and> u = u0\<lparr>last_seen := Some (time2 e)\<rparr> \<and> d1 = save_user u d"
    by simp
  with mem show ?thesis by (rule bexI [rotated])
qed

section \<open>The return date\<close>

text \<open>
  Claim C2, as stated, at the last day of the calendar: the book was borrowed on
  9999-12-31, a valid date, and \<open>return_date\<close> raises \<^verbatim>\<open>OverflowError\<close> instead of
  returning a date thirty days later.
\<close>

theorem return_date_overflow:
  "valid_date (Date 3652059)
   \<and> return_date (today env0) (dune\<lparr>borrowed_at := Some (Date 3652059)\<rparr>) = Inl OverflowError"
  by (simp add: return_date_def date_add_days_def valid_date_def MAXORDINAL_def
      ALLOWED_BORROW_DAYS_def dune_def)

text \<open>
  Claim C2, amended. \<open>return_date\<close> returns today's date when \<open>borrowed_at\<close> is null;
  for a \<open>borrowed_at\<close> at most thirty days before 9999-12-31 it returns \<open>borrowed_at\<close>
  plus exactly 30 days; for a later \<open>borrowed_at\<close> it raises \<^verbatim>\<open>OverflowError\<close>.
\<close>

theorem return_date_spec:
  "(borrowed_at b = None \<longrightarrow> return_date t b = Inr t)
   \<and> (\<forall>d. borrowed_at b = Some d \<and> valid_date d \<and> toordinal d + ALLOWED_BORROW_DAYS \<le> MAXORDINAL
          \<longrightarrow> return_date t b = Inr (Date (toordinal d + 30)))
   \<and> (\<forall>d. borrowed_at b = Some d \<and> MAXORDINAL < toordinal d + ALLOWED_BORROW_DAYS
          \<longrightarrow> return_date t b = Inl OverflowError)"
  by (simp add: return_date_def date_add_days_def valid_date_def MAXORDINAL_def
      ALLOWED_BORROW_DAYS_def)

theorem return_date_spec_witness:
  "return_date (Date 738100) emma = Inr (Date 738100)
   \<and> valid_date (Date 738000) \<and> return_date (Date 738100) dune = Inr (Date 738030)
   \<and> return_date (Date 738100) (dune\<lparr>borrowed_at := Some (Date 3652030)\<rparr>) = Inl OverflowError"
  using return_date_spec [of emma "Date 738100"] return_date_spec [of dune "Date 738100"]
    return_date_spec [of "dune\<lparr>borrowed_at := Some (Date 3652030)\<rparr>" "Date 738100"]
  by (simp add: emma_def dune_def valid_date_def MAXORDINAL_def ALLOWED_BORROW_DAYS_def)

section \<open>The session resolver\<close>

text \<open>
  Claim C3. With the cookies of a logged-in user whose email is unique in the table, the
  resolver redirects to the login page, leaving the database as it is, when the first
  clock reading is exactly 3600 seconds after the stored \<open>last_seen\<close>, and returns the
  user when it is 3599 seconds after it. The comparison reads the stored \<open>last_seen\<close>;
  only afterwards the row is saved with the second clock reading.
\<close>


theorem resolver_freshness_boundary:
  assumes "distinct (map email (users d))" and "u \<in> set (users d)"
    and "cookies rq ''user-email'' = Some (email u)"
    and "cookies rq ''password'' = Some (password u)"
    and "logged_in u" and "last_seen u = Some t"
  shows "(time1 e - t = 3600 \<longrightarrow> get_logged_in_user e rq d = (Inl (HTTPRedirect ''/login''), d))
       \<and> (time1 e - t = 3599 \<longrightarrow>
            get_logged_in_user e rq d =
              (Inr (u\<lparr>last_seen := Some (time2 e)\<rparr>), save_user (u\<lparr>last_seen := Some (time2 e)\<rparr>) d))"
proof (intro conjI impI)
  let ?P = "\<lambda>r. Some (email r) = cookies rq ''user-email'' \<and> Some (password r) = cookies rq ''password''
                 \<and> logged_in r = True \<and> seen_recently (time1 e) (last_seen r)"
  have only: "r = u" if "r \<in> set (users d)" "Some (email r) = cookies rq ''user-email''" for r
  proof -
    from that(2) assms(3) have "email r = email u" by simp
    with assms(1) that(1) assms(2) show ?thesis by (rule distinct_map_eqD)
  qed
  {
    assume "time1 e - t = 3600"
    then have "\<not> ?P u" using assms(6) by (simp add: seen_recently_def)
    with only have "\<forall>r\<in>set (users d). \<not> ?P r" by blast
    then have "find ?P (users d) = None" by (simp add: find_None_iff)
    then show "get_logged_in_user e rq d = (Inl (HTTPRedirect ''/login''), d)"
      by (simp add: get_logged_in_user_def)
  }
  {
    assume "time1 e - t = 3599"
    then have pu: "?P u" using assms(3-6) by (simp add: seen_recently_def)
    have "\<forall>r\<in>set (users d). ?P r \<longrightarrow> r = u" using only by blast
    with assms(2) pu have "find ?P (users d) = Some u" by (rule find_unique)
    then show "get_logged_in_user e rq d =
        (Inr (u\<lparr>last_seen := Some (time2 e)\<rparr>), save_user (u\<lparr>last_seen := Some (time2 e)\<rparr>) d)"
      by (simp add: get_logged_in_user_def Let_def)
  }
qed

theorem resolver_freshness_boundary_witness:
  "distinct (map email (users lib)) \<and> ana \<in> set (users lib)
   \<and> cookies ana_rq ''user-email'' = Some (email ana)
   \<and> cookies ana_rq ''password'' = Some (password ana)
   \<and> logged_in ana \<and> last_seen ana = Some 1000
   \<and> get_logged_in_user (env0\<lparr>time1 := 4600\<rparr>) ana_rq lib = (Inl (HTTPRedirect ''/login''), lib)
   \<and> get_logged_in_user (env0\<lparr>time1 := 4599\<rparr>) ana_rq lib =
       (Inr (ana\<lparr>last_seen := Some 2001\<rparr>), lib\<lparr>users := [ana\<lparr>last_seen := Some 2001\<rparr>, bob]\<rparr>)"
proof -
  have h: "distinct (map email (users lib))" "ana \<in> set (users lib)"
    "cookies ana_rq ''user-email'' = Some (email ana)"
    "cookies ana_rq ''password'' = Some (password ana)"
    "logged_in ana" "last_seen ana = Some 1000"
    by (simp_all add: lib_def ana_def bob_def ana_rq_def)
  have s: "save_user (ana\<lparr>last_seen := Some 2001\<rparr>) lib = lib\<lparr>users := [ana\<lparr>last_seen := Some 2001\<rparr>, bob]\<rparr>"
    by (simp add: save_user_def lib_def ana_def bob_def)
  show ?thesis
    using h resolver_freshness_boundary [OF h, of "env0\<lparr>time1 := 4600\<rparr>"]
      resolver_freshness_boundary [OF h, of "env0\<lparr>time1 := 4599\<rparr>"]
    by (simp add: s env0_def)
qed

section \<open>Registration\<close>

lemma register_form_echo:
  "register_form rq ''first_name'' = Some (forms_get rq ''first_name'' '''')"
  "register_form rq ''last_name'' = Some (forms_get rq ''last_name'' '''')"
  "register_form rq ''email'' = Some (forms_get rq ''email'' '''')"
  "register_form rq ''password'' = Some (forms_get rq ''password'' '''')"
  "register_form rq ''error'' = Some ''''"
  by (simp_all add: register_form_def)

lemma first_missing_cases:
  "first_missing rq =
     (if forms_get rq ''first_name'' '''' = '''' then Some ''Please enter a First Name.''
      else if forms_get rq ''last_name'' '''' = '''' then Some ''Please enter a Last Name.''
      else if forms_get rq ''email'' '''' = '''' then Some ''Please enter an email address.''
      else if forms_get rq ''password'' '''' = '''' then Some ''Please enter a password.''
      else None)"
  by (simp add: first_missing_def required_fields_def)

lemma register_missing:
  assumes "first_missing rq = Some msg"
  shows "register e rq d = (Inr ((register_form rq)(''error'' \<mapsto> msg)), [], d)"
  using assms
  by (simp add: first_missing_cases register_def Let_def register_form_echo split: if_splits)

lemma first_missing_nonempty: "first_missing rq = Some msg \<Longrightarrow> msg \<noteq> ''''"
  by (auto simp: first_missing_cases split: if_splits)

lemma register_complete:
  assumes "first_missing rq = None"
  shows "register e rq d =
     (case create_user (forms_get rq ''first_name'' '''') (forms_get rq ''last_name'' '''')
             (forms_get rq ''email'' '''') (forms_get rq ''password'' '''') d of
        None \<Rightarrow>
          (Inr ((register_form rq)(''error'' \<mapsto> already_registered (forms_get rq ''email'' ''''))), [], d)
      | Some (u, d1) \<Rightarrow>
          (if cookie_fits e ''user-email'' (email u) \<and> cookie_fits e ''password'' (password u)
           then (Inl (HTTPRedirect ''/home''), [(''user-email'', email u), (''password'', password u)],
                 save_user (u\<lparr>logged_in := True, last_seen := Some (time1 e)\<rparr>) d1)
           else (Inl (Uncaught ValueError), [], d1)))"
  using assms
  by (simp add: first_missing_cases register_def Let_def register_form_echo set_logged_in_user_def
      split: if_splits option.splits)

text \<open>
  Claim C8. Some required field of the registration form is empty exactly when the list
  of required fields, read in the order first name, last name, email, password, has a
  first empty one; \<open>register\<close> then returns the form with the message of that field,
  sets no cookie, leaves the database as it is (no user is created), and the form it
  returns holds every submitted value unchanged.
\<close>

theorem register_validation_order:
  "(first_missing rq \<noteq> None \<longleftrightarrow>
      (\<exists>k\<in>{''first_name'', ''last_name'', ''email'', ''password''}. forms_get rq k '''' = ''''))
   \<and> (\<forall>msg. first_missing rq = Some msg \<longrightarrow>
         register e rq d = (Inr ((register_form rq)(''error'' \<mapsto> msg)), [], d)
         \<and> (\<forall>k\<in>{''first_name'', ''last_name'', ''email'', ''password''}.
               ((register_form rq)(''error'' \<mapsto> msg)) k = Some (forms_get rq k '''')))"
proof (intro conjI allI impI)
  show "first_missing rq \<noteq> None \<longleftrightarrow>
      (\<exists>k\<in>{''first_name'', ''last_name'', ''email'', ''password''}. forms_get rq k '''' = '''')"
    by (simp add: first_missing_cases)
next
  fix msg assume "first_missing rq = Some msg"
  then show "register e rq d = (Inr ((register_form rq)(''error'' \<mapsto> msg)), [], d)"
    by (rule register_missing)
next
  fix msg
  show "\<forall>k\<in>{''first_name'', ''last_name'', ''email'', ''password''}.
               ((register_form rq)(''error'' \<mapsto> msg)) k = Some (forms_get rq k '''')"
    by (simp add: register_form_echo)
qed

theorem register_validation_order_witness:
  "first_missing cy_rq = Some ''Please enter a Last Name.''
   \<and> forms_get cy_rq ''last_name'' '''' = '''' \<and> forms_get cy_rq ''email'' '''' = ''''
   \<and> register env0 cy_rq lib =
        (Inr ((register_form cy_rq)(''error'' \<mapsto> ''Please enter a Last Name.'')), [], lib)
   \<and> ((register_form cy_rq)(''error'' \<mapsto> ''Please enter a Last Name.'')) ''first_name'' = Some ''Cy''"
proof -
  have h: "first_missing cy_rq = Some ''Please enter a Last Name.''"
    by (simp add: first_missing_cases forms_get_def cy_rq_def)
  show ?thesis
    using h register_validation_order [of cy_rq env0 lib]
    by (simp add: forms_get_def cy_rq_def)
qed

text \<open>
  Claim C7. When the submitted email is the email of a row of the user table,
  \<open>register\<close> returns the form with an error message and every submitted value, sets no
  cookie and leaves the database, and so the user table, as it is. When no required field
  is empty the message is the text that names the registered email and points to the
  login page: \<^verbatim>\<open>User with email\<close>, the email, and
  \<^verbatim>\<open>already registered. Please <a href='login'/>login</a> instead\<close>.
\<close>

theorem register_duplicate_email:
  assumes "u \<in> set (users d)" and "forms_get rq ''email'' '''' = email u"
  shows "\<exists>msg. register e rq d = (Inr ((register_form rq)(''error'' \<mapsto> msg)), [], d)
           \<and> msg \<noteq> ''''
           \<and> (first_missing rq = None \<longrightarrow>
                msg = ''User with email '' @ email u
                        @ '' already registered. Please <a href='login'/>login</a> instead'')
           \<and> (\<forall>k\<in>{''first_name'', ''last_name'', ''email'', ''password''}.
                 ((register_form rq)(''error'' \<mapsto> msg)) k = Some (forms_get rq k ''''))"
proof (cases "first_missing rq")
  case (Some msg)
  then have "register e rq d = (Inr ((register_form rq)(''error'' \<mapsto> msg)), [], d)"
    and "msg \<noteq> ''''"
    by (simp_all add: register_missing first_missing_nonempty)
  with Some show ?thesis
    by (intro exI [of _ msg]) (simp add: register_form_echo)
next
  case None
  from assms have "create_user (forms_get rq ''first_name'' '''') (forms_get rq ''last_name'' '''')
             (forms_get rq ''email'' '''') (forms_get rq ''password'' '''') d = None"
    by (simp add: create_user_def)
  with None have "register e rq d =
      (Inr ((register_form rq)(''error'' \<mapsto> already_registered (email u))), [], d)"
    by (simp add: register_complete assms(2))
  moreover have "already_registered (email u) \<noteq> ''''"
    by (simp add: already_registered_def)
  moreover have "already_registered (email u) =
      ''User with email '' @ email u
        @ '' already registered. Please <a href='login'/>login</a> instead''"
    by (simp add: already_registered_def)
  ultimately show ?thesis
    by (intro exI [of _ "already_registered (email u)"]) (simp add: register_form_echo)
qed

theorem register_duplicate_email_witness:
  "ana \<in> set (users lib) \<and> forms_get ana_again ''email'' '''' = email ana
   \<and> first_missing ana_again = None
   \<and> register env0 ana_again lib =
        (Inr [''email'' \<mapsto> ''ana@lib.org'', ''password'' \<mapsto> ''pw9'', ''first_name'' \<mapsto> ''Ana'',
              ''last_name'' \<mapsto> ''Diaz'',
              ''error'' \<mapsto> ''User with email ana@lib.org already registered. Please <a href='login'/>login</a> instead''],
         [], lib)"
proof -
  have h: "ana \<in> set (users lib)" "forms_get ana_again ''email'' '''' = email ana"
    by (simp_all add: lib_def forms_get_def ana_again_def ana_def)
  have n: "first_missing ana_again = None"
    by (simp add: first_missing_cases forms_get_def ana_again_def)
  from register_duplicate_email [OF h, of env0] obtain msg where
    "register env0 ana_again lib = (Inr ((register_form ana_again)(''error'' \<mapsto> msg)), [], lib)
       \<and> msg \<noteq> ''''
       \<and> (first_missing ana_again = None \<longrightarrow>
            msg = ''User with email '' @ email ana
                    @ '' already registered. Please <a href='login'/>login</a> instead'')
       \<and> (\<forall>k\<in>{''first_name'', ''last_name'', ''email'', ''password''}.
             ((register_form ana_again)(''error'' \<mapsto> msg)) k = Some (forms_get ana_again k ''''))"
    ..
  with n have "register env0 ana_again lib =
      (Inr ((register_form ana_again)(''error'' \<mapsto>
         ''User with email ana@lib.org already registered. Please <a href='login'/>login</a> instead'')),
       [], lib)"
    by (simp add: ana_def)
  moreover have "(register_form ana_again)(''error'' \<mapsto>
         ''User with email ana@lib.org already registered. Please <a href='login'/>login</a> instead'')
      = [''email'' \<mapsto> ''ana@lib.org'', ''password'' \<mapsto> ''pw9'', ''first_name'' \<mapsto> ''Ana'',
         ''last_name'' \<mapsto> ''Diaz'',
         ''error'' \<mapsto> ''User with email ana@lib.org already registered. Please <a href='login'/>login</a> instead'']"
    by (simp add: register_form_def forms_get_def ana_again_def)
  ultimately have "register env0 ana_again lib =
        (Inr [''email'' \<mapsto> ''ana@lib.org'', ''password'' \<mapsto> ''pw9'', ''first_name'' \<mapsto> ''Ana'',
              ''last_name'' \<mapsto> ''Diaz'',
              ''error'' \<mapsto> ''User with email ana@lib.org already registered. Please <a href='login'/>login</a> instead''],
         [], lib)"
    by (simp only:)
  with h n show ?thesis by (intro conjI)
qed

section \<open>Login\<close>

lemma login_form_echo:
  "login_form rq ''email'' = Some (forms_get rq ''email'' '''')"
  "login_form rq ''password'' = Some (forms_get rq ''password'' '''')"
  "login_form rq ''error'' = Some ''''"
  by (simp_all add: login_form_def)

lemma login_cases:
  "login e rq d =
     (if forms_get rq ''email'' '''' = '''' then
        (Inr ((login_form rq)(''error'' \<mapsto> ''Please enter an email address.'')), [], d)
      else if forms_get rq ''password'' '''' = '''' then
        (Inr ((login_form rq)(''error'' \<mapsto> ''Please enter a password.'')), [], d)
      else
        (case find (\<lambda>u. email u = forms_get rq ''email'' ''''
                        \<and> password u = forms_get rq ''password'' '''') (users d) of
           Some u \<Rightarrow>
             (if cookie_fits e ''user-email'' (email u) \<and> cookie_fits e ''password'' (password u)
              then (Inl (HTTPRedirect ''/home''), [(''user-email'', email u), (''password'', password u)],
                    save_user (u\<lparr>logged_in := True, last_seen := Some (time1 e)\<rparr>) d)
              else (Inl (Uncaught ValueError), [], d))
         | None \<Rightarrow>
             (Inr ((login_form rq)(''error'' \<mapsto> ''Bad email/password. Please try again or Register.'')),
              [], d)))"
  by (simp add: login_def Let_def login_form_echo set_logged_in_user_def split: option.splits)

lemma find_map:
  "find P (map h xs) = map_option h (find (\<lambda>x. P (h x)) xs)"
  by (induction xs) simp_all

lemma saved_user_mem:
  assumes "u \<in> set (users d)" and "user_id u' = user_id u"
  shows "u' \<in> set (users (save_user u' d))"
proof -
  from assms(2) have "(\<lambda>r. if user_id r = user_id u' then u' else r) u = u'" by simp
  with assms(1) show ?thesis
    unfolding save_user_def by (simp add: image_iff) (metis)
qed

lemma login_match:
  assumes "forms_get rq ''email'' '''' = em" and "forms_get rq ''password'' '''' = pw"
    and "em \<noteq> ''''" and "pw \<noteq> ''''"
    and "\<exists>u\<in>set (users d). email u = em \<and> password u = pw"
    and "cookie_fits e ''user-email'' em \<and> cookie_fits e ''password'' pw"
  shows "\<exists>u\<in>set (users d). email u = em \<and> password u = pw
              \<and> login e rq d =
                  (Inl (HTTPRedirect ''/home''), [(''user-email'', em), (''password'', pw)],
                   save_user (u\<lparr>logged_in := True, last_seen := Some (time1 e)\<rparr>) d)
              \<and> u\<lparr>logged_in := True, last_seen := Some (time1 e)\<rparr>
                  \<in> set (users (save_user (u\<lparr>logged_in := True, last_seen := Some (time1 e)\<rparr>) d))"
proof (cases "find (\<lambda>u. email u = em \<and> password u = pw) (users d)")
  case None
  from None [unfolded find_None_iff] assms(5) show ?thesis by blast
next
  case (Some u)
  let ?u' = "u\<lparr>logged_in := True, last_seen := Some (time1 e)\<rparr>"
  from find_SomeD [OF Some] have mem: "u \<in> set (users d)" and pu: "email u = em \<and> password u = pw"
    by (rule conjunct1, rule conjunct2)
  from pu have em: "email u = em" and pw: "password u = pw" by simp_all
  have "login e rq d =
        (Inl (HTTPRedirect ''/home''), [(''user-email'', em), (''password'', pw)], save_user ?u' d)"
    unfolding login_cases assms(1,2) using assms(3,4,6) by (simp add: Some em pw)
  moreover from mem have "?u' \<in> set (users (save_user ?u' d))"
    by (rule saved_user_mem) simp
  ultimately have "email u = em \<and> password u = pw \<and> login e rq d =
        (Inl (HTTPRedirect ''/home''), [(''user-email'', em), (''password'', pw)], save_user ?u' d)
        \<and> ?u' \<in> set (users (save_user ?u' d))"
    using em pw by simp
  with mem show ?thesis by (rule bexI [rotated])
qed

lemma login_too_long:
  assumes "forms_get rq ''email'' '''' = em" and "forms_get rq ''password'' '''' = pw"
    and "em \<noteq> ''''" and "pw \<noteq> ''''"
    and "\<exists>u\<in>set (users d). email u = em \<and> password u = pw"
    and "\<not> (cookie_fits e ''user-email'' em \<and> cookie_fits e ''password'' pw)"
  shows "login e rq d = (Inl (Uncaught ValueError), [], d)"
proof (cases "find (\<lambda>u. email u = em \<and> password u = pw) (users d)")
  case None
  from None [unfolded find_None_iff] assms(5) show ?thesis by blast
next
  case (Some u)
  from find_SomeD [OF Some] have pu: "email u = em \<and> password u = pw"
    by (rule conjunct2)
  then have em: "email u = em" and pw: "password u = pw" by simp_all
  show ?thesis
    unfolding login_cases assms(1,2) using assms(3,4,6) by (simp add: Some em pw)
qed

lemma login_no_match:
  assumes "forms_get rq ''email'' '''' = em" and "forms_get rq ''password'' '''' = pw"
    and "em \<noteq> ''''" and "pw \<noteq> ''''"
    and "\<forall>u\<in>set (users d). \<not> (email u = em \<and> password u = pw)"
  shows "login e rq d =
     (Inr ((login_form rq)(''error'' \<mapsto> ''Bad email/password. Please try again or Register.'')),
      [], d)"
proof -
  from assms(5) have "find (\<lambda>u. email u = em \<and> password u = pw) (users d) = None"
    unfolding find_None_iff by blast
  then show ?thesis
    unfolding login_cases assms(1,2) using assms(3,4) by simp
qed

lemma login_independent:
  "fst (login e rq (d\<lparr>users := map (\<lambda>r. r\<lparr>logged_in := f r, last_seen := g r\<rparr>) (users d)\<rparr>))
     = fst (login e rq d)
   \<and> fst (snd (login e rq (d\<lparr>users := map (\<lambda>r. r\<lparr>logged_in := f r, last_seen := g r\<rparr>) (users d)\<rparr>)))
     = fst (snd (login e rq d))"
proof -
  let ?P = "\<lambda>u. email u = forms_get rq ''email'' '''' \<and> password u = forms_get rq ''password'' ''''"
  let ?h = "\<lambda>r. r\<lparr>logged_in := f r, last_seen := g r\<rparr>"
  have fm: "find ?P (map ?h (users d)) = map_option ?h (find ?P (users d))"
    by (simp add: find_map)
  show ?thesis
  proof (cases "find ?P (users d)")
    case None
    with fm show ?thesis by (simp add: login_cases)
  next
    case (Some u)
    with fm show ?thesis by (simp add: login_cases)
  qed
qed

text \<open>
  Claim C6, as stated, on the login of the user \<open>zed\<close>, whose password has 5000
  characters: the form is complete and the row matches it, but \<open>login\<close> ends in the
  \<^verbatim>\<open>ValueError\<close> of the cookie that cannot hold the password; nothing is saved, no cookie
  is set and there is no redirect.
\<close>

theorem login_long_password:
  "forms_get zed_login ''email'' '''' = email zed \<and> forms_get zed_login ''password'' '''' = password zed
   \<and> email zed \<noteq> '''' \<and> password zed \<noteq> '''' \<and> length (password zed) = 5000
   \<and> zed \<in> set (users (lib\<lparr>users := [ana, bob, zed]\<rparr>))
   \<and> login env0 zed_login (lib\<lparr>users := [ana, bob, zed]\<rparr>) =
       (Inl (Uncaught ValueError), [], lib\<lparr>users := [ana, bob, zed]\<rparr>)"
  by (simp add: login_cases forms_get_def zed_login_def zed_def ana_def bob_def env0_def)

text \<open>
  Claim C6, amended. With a non-empty email and a non-empty password in the form, \<open>login\<close>
  looks for a row with exactly this email and this password and reads no other column.
  When there is one and both credentials fit into a cookie, such a row is saved with
  \<open>logged_in\<close> true and \<open>last_seen\<close> the clock reading, the cookies \<open>user-email\<close> and
  \<open>password\<close> are set to the credentials, and the response redirects to the home page.
  When there is one and a credential does not fit into a cookie, the request ends in an
  uncaught \<^verbatim>\<open>ValueError\<close>: no cookie is set, nothing is saved, there is no redirect.
  When there is none, the form comes back with one fixed message, whatever the reason of
  the mismatch, no cookie is set and the database is as before. Setting \<open>logged_in\<close> and
  \<open>last_seen\<close> of the rows to any other values changes neither the response nor the
  cookies.
\<close>

theorem login_spec:
  assumes "forms_get rq ''email'' '''' = em" and "forms_get rq ''password'' '''' = pw"
    and "em \<noteq> ''''" and "pw \<noteq> ''''"
  shows "((\<exists>u\<in>set (users d). email u = em \<and> password u = pw)
            \<and> cookie_fits e ''user-email'' em \<and> cookie_fits e ''password'' pw \<longrightarrow>
           (\<exists>u\<in>set (users d). email u = em \<and> password u = pw
              \<and> login e rq d =
                  (Inl (HTTPRedirect ''/home''), [(''user-email'', em), (''password'', pw)],
                   save_user (u\<lparr>logged_in := True, last_seen := Some (time1 e)\<rparr>) d)
              \<and> u\<lparr>logged_in := True, last_seen := Some (time1 e)\<rparr>
                  \<in> set (users (save_user (u\<lparr>logged_in := True, last_seen := Some (time1 e)\<rparr>) d))))
       \<and> ((\<exists>u\<in>set (users d). email u = em \<and> password u = pw)
            \<and> \<not> (cookie_fits e ''user-email'' em \<and> cookie_fits e ''password'' pw) \<longrightarrow>
            login e rq d = (Inl (Uncaught ValueError), [], d))
       \<and> ((\<forall>u\<in>set (users d). \<not> (email u = em \<and> password u = pw)) \<longrightarrow>
            login e rq d =
              (Inr ((login_form rq)(''error'' \<mapsto> ''Bad email/password. Please try again or Register.'')),
               [], d))
       \<and> fst (login e rq (d\<lparr>users := map (\<lambda>r. r\<lparr>logged_in := f r, last_seen := g r\<rparr>) (users d)\<rparr>))
            = fst (login e rq d)
       \<and> fst (snd (login e rq (d\<lparr>users := map (\<lambda>r. r\<lparr>logged_in := f r, last_seen := g r\<rparr>) (users d)\<rparr>)))
            = fst (snd (login e rq d))"
proof (intro conjI impI)
  assume a: "(\<exists>u\<in>set (users d). email u = em \<and> password u = pw)
            \<and> cookie_fits e ''user-email'' em \<and> cookie_fits e ''password'' pw"
  then have "\<exists>u\<in>set (users d). email u = em \<and> password u = pw"
    and "cookie_fits e ''user-email'' em \<and> cookie_fits e ''password'' pw"
    by (rule conjunct1, rule conjunct2)
  with assms show "\<exists>u\<in>set (users d). email u = em \<and> password u = pw
              \<and> login e rq d =
                  (Inl (HTTPRedirect ''/home''), [(''user-email'', em), (''password'', pw)],
                   save_user (u\<lparr>logged_in := True, last_seen := Some (time1 e)\<rparr>) d)
              \<and> u\<lparr>logged_in := True, last_seen := Some (time1 e)\<rparr>
                  \<in> set (users (save_user (u\<lparr>logged_in := True, last_seen := Some (time1 e)\<rparr>) d))"
    by (rule login_match)
next
  assume a: "(\<exists>u\<in>set (users d). email u = em \<and> password u = pw)
            \<and> \<not> (cookie_fits e ''user-email'' em \<and> cookie_fits e ''password'' pw)"
  then have "\<exists>u\<in>set (users d). email u = em \<and> password u = pw"
    and "\<not> (cookie_fits e ''user-email'' em \<and> cookie_fits e ''password'' pw)"
    by (rule conjunct1, rule conjunct2)
  with assms show "login e rq d = (Inl (Uncaught ValueError), [], d)"
    by (rule login_too_long)
next
  assume "\<forall>u\<in>set (users d). \<not> (email u = em \<and> password u = pw)"
  with assms show "login e rq d =
      (Inr ((login_form rq)(''error'' \<mapsto> ''Bad email/password. Please try again or Register.'')),
       [], d)"
    by (rule login_no_match)
next
  show "fst (login e rq (d\<lparr>users := map (\<lambda>r. r\<lparr>logged_in := f r, last_seen := g r\<rparr>) (users d)\<rparr>))
            = fst (login e rq d)"
    by (rule login_independent [THEN conjunct1])
next
  show "fst (snd (login e rq (d\<lparr>users := map (\<lambda>r. r\<lparr>logged_in := f r, last_seen := g r\<rparr>) (users d)\<rparr>)))
            = fst (snd (login e rq d))"
    by (rule login_independent [THEN conjunct2])
qed

theorem login_spec_witness:
  "forms_get ana_login ''email'' '''' = ''ana@lib.org''
   \<and> forms_get ana_login ''password'' '''' = ''pw1''
   \<and> cookie_fits env0 ''user-email'' ''ana@lib.org'' \<and> cookie_fits env0 ''password'' ''pw1''
   \<and> login env0 ana_login (lib\<lparr>users := [ana\<lparr>logged_in := False, last_seen := None\<rparr>, bob]\<rparr>) =
       (Inl (HTTPRedirect ''/home''), [(''user-email'', ''ana@lib.org''), (''password'', ''pw1'')],
        lib\<lparr>users := [ana\<lparr>logged_in := True, last_seen := Some 2000\<rparr>, bob]\<rparr>)
   \<and> login (env0\<lparr>cookie_fits := \<lambda>n v. False\<rparr>) ana_login lib = (Inl (Uncaught ValueError), [], lib)
   \<and> login env0 ana_login (lib\<lparr>users := [bob]\<rparr>) =
       (Inr [''email'' \<mapsto> ''ana@lib.org'', ''password'' \<mapsto> ''pw1'',
             ''error'' \<mapsto> ''Bad email/password. Please try again or Register.''],
        [], lib\<lparr>users := [bob]\<rparr>)"
proof -
  have h: "forms_get ana_login ''email'' '''' = ''ana@lib.org''"
    "forms_get ana_login ''password'' '''' = ''pw1''"
    "''ana@lib.org'' \<noteq> ''''" "''pw1'' \<noteq> ''''"
    by (simp_all add: forms_get_def ana_login_def)
  have c: "cookie_fits env0 ''user-email'' ''ana@lib.org''" "cookie_fits env0 ''password'' ''pw1''"
    by (simp_all add: env0_def)
  have f: "(login_form ana_login)(''error'' \<mapsto> ''Bad email/password. Please try again or Register.'')
      = [''email'' \<mapsto> ''ana@lib.org'', ''password'' \<mapsto> ''pw1'',
         ''error'' \<mapsto> ''Bad email/password. Please try again or Register.'']"
    by (simp add: login_form_def forms_get_def ana_login_def)
  show ?thesis
    using h c
      login_spec [OF h, of "lib\<lparr>users := [ana\<lparr>logged_in := False, last_seen := None\<rparr>, bob]\<rparr>" env0]
      login_spec [OF h, of lib "env0\<lparr>cookie_fits := \<lambda>n v. False\<rparr>"]
      login_spec [OF h, of "lib\<lparr>users := [bob]\<rparr>" env0]
    by (simp add: f save_user_def lib_def ana_def bob_def) (simp add: env0_def)
qed

section \<open>Borrowing and returning\<close>

lemma save_user_frame [simp]:
  "books (save_user u d) = books d"
  "authors (save_user u d) = authors d"
  "book_author_through (save_user u d) = book_author_through d"
  by (simp_all add: save_user_def)

lemma save_book_frame [simp]:
  "users (save_book b d) = users d"
  "authors (save_book b d) = authors d"
  "book_author_through (save_book b d) = book_author_through d"
  by (simp_all add: save_book_def)

lemma resolver_cases:
  obtains (rejected) "get_logged_in_user e rq d = (Inl (HTTPRedirect ''/login''), d)"
  | (resolved) u0 where "u0 \<in> set (users d)" and "logged_in u0"
      and "Some (email u0) = cookies rq ''user-email''"
      and "Some (password u0) = cookies rq ''password''"
      and "seen_recently (time1 e) (last_seen u0)"
      and "get_logged_in_user e rq d =
             (Inr (u0\<lparr>last_seen := Some (time2 e)\<rparr>), save_user (u0\<lparr>last_seen := Some (time2 e)\<rparr>) d)"
proof (cases "get_logged_in_user e rq d")
  case (Pair r d1)
  show ?thesis
  proof (cases r)
    case (Inl x)
    with Pair have "get_logged_in_user e rq d = (Inl x, d1)" by simp
    from get_logged_in_user_Inl [OF this] this
    have "get_logged_in_user e rq d = (Inl (HTTPRedirect ''/login''), d)" by simp
    then show ?thesis by (rule rejected)
  next
    case (Inr u)
    with Pair have g: "get_logged_in_user e rq d = (Inr u, d1)" by simp
    from get_logged_in_user_Inr [OF g] obtain u0 where
      "u0 \<in> set (users d)" and
      "logged_in u0 \<and> Some (email u0) = cookies rq ''user-email''
           \<and> Some (password u0) = cookies rq ''password''
           \<and> seen_recently (time1 e) (last_seen u0)
           \<and> u = u0\<lparr>last_seen := Some (time2 e)\<rparr> \<and> d1 = save_user u d" ..
    with g show ?thesis by (intro resolved [of u0]) simp_all
  qed
qed

lemma find_book_None:
  "(\<forall>b\<in>set bs. book_id b \<noteq> bid) \<Longrightarrow> find (\<lambda>b. book_id b = bid) bs = None"
  unfolding find_None_iff by blast

lemma find_book_Some:
  assumes "distinct (map book_id bs)" and "b \<in> set bs" and "book_id b = bid"
  shows "find (\<lambda>b. book_id b = bid) bs = Some b"
proof (rule find_unique)
  show "b \<in> set bs" by fact
  show "book_id b = bid" by fact
  show "\<forall>y\<in>set bs. book_id y = bid \<longrightarrow> y = b"
  proof (intro ballI impI)
    fix y assume "y \<in> set bs" and "book_id y = bid"
    with assms(3) have "book_id y = book_id b" by simp
    with assms(1) \<open>y \<in> set bs\<close> assms(2) show "y = b" by (rule distinct_map_eqD)
  qed
qed

lemma map_update_unique:
  assumes "distinct (map k xs)" and "x \<in> set xs"
  shows "map (\<lambda>r. if k r = k x then g x else r) xs = map (\<lambda>r. if k r = k x then g r else r) xs"
proof (rule map_cong [OF refl])
  fix r assume r: "r \<in> set xs"
  show "(if k r = k x then g x else r) = (if k r = k x then g r else r)"
  proof (cases "k r = k x")
    case True
    with assms(1) r assms(2) have "r = x" by (rule distinct_map_eqD)
    then show ?thesis by simp
  next
    case False
    then show ?thesis by simp
  qed
qed

lemma save_user_resolved:
  assumes "distinct (map user_id (users d))" and "u0 \<in> set (users d)"
  shows "save_user (u0\<lparr>last_seen := Some t\<rparr>) d =
     d\<lparr>users := map (\<lambda>r. if user_id r = user_id u0 then r\<lparr>last_seen := Some t\<rparr> else r) (users d)\<rparr>"
  using map_update_unique [OF assms, of "\<lambda>r. r\<lparr>last_seen := Some t\<rparr>"]
  by (simp add: save_user_def)

lemma save_book_found:
  assumes "distinct (map book_id (books d))" and "b \<in> set (books d)"
  shows "save_book (b\<lparr>borrowed_by := x, borrowed_at := y\<rparr>) d =
     d\<lparr>books := map (\<lambda>r. if book_id r = book_id b then r\<lparr>borrowed_by := x, borrowed_at := y\<rparr> else r)
                   (books d)\<rparr>"
  using map_update_unique [OF assms, of "\<lambda>r. r\<lparr>borrowed_by := x, borrowed_at := y\<rparr>"]
  by (simp add: save_book_def)

lemma map_update_absent:
  assumes "\<forall>b\<in>set bs. k b \<noteq> bid"
  shows "map (\<lambda>r. if k r = bid then g r else r) bs = bs"
  using assms by (induction bs) simp_all

lemma borrow_book_rejected:
  assumes "get_logged_in_user e rq d = (Inl x, d1)"
  shows "borrow_book e rq bid d = (Inl x, d1)"
  using assms by (simp add: borrow_book_def)

lemma borrow_book_overflow:
  assumes "get_logged_in_user e rq d = (Inr u, d1)" and "\<not> sqlite_int bid"
  shows "borrow_book e rq bid d = (Inl (Uncaught OverflowError), d1)"
  using assms by (simp add: borrow_book_def get_book_def)

lemma borrow_book_resolved:
  assumes "get_logged_in_user e rq d = (Inr u, d1)" and "sqlite_int bid"
  shows "borrow_book e rq bid d =
     (case find (\<lambda>b. book_id b = bid) (books d) of
        None \<Rightarrow> (Inl (HTTPError 404 ''Book not found.''), d1)
      | Some b \<Rightarrow>
          (Inr (u, b\<lparr>borrowed_by := Some (user_id u), borrowed_at := Some (today e)\<rparr>, ''30''),
           save_book (b\<lparr>borrowed_by := Some (user_id u), borrowed_at := Some (today e)\<rparr>) d1))"
proof -
  from get_logged_in_user_Inr [OF assms(1)] have "d1 = save_user u d" by blast
  then have "books d1 = books d" by simp
  with assms show ?thesis
    by (simp add: borrow_book_def get_book_def Let_def split: option.splits)
qed

lemma return_book_rejected:
  assumes "get_logged_in_user e rq d = (Inl x, d1)"
  shows "return_book e rq bid d = (x, d1)"
  using assms by (simp add: return_book_def)

lemma return_book_overflow:
  assumes "get_logged_in_user e rq d = (Inr u, d1)" and "\<not> sqlite_int bid"
  shows "return_book e rq bid d = (Uncaught OverflowError, d1)"
  using assms by (simp add: return_book_def get_book_def)

lemma return_book_resolved:
  assumes "get_logged_in_user e rq d = (Inr u, d1)" and "sqlite_int bid"
  shows "return_book e rq bid d =
     (case find (\<lambda>b. book_id b = bid) (books d) of
        None \<Rightarrow> (HTTPError 404 ''Book not found.'', d1)
      | Some b \<Rightarrow>
          (HTTPRedirect ''/home'', save_book (b\<lparr>borrowed_by := None, borrowed_at := None\<rparr>) d1))"
proof -
  from get_logged_in_user_Inr [OF assms(1)] have "d1 = save_user u d" by blast
  then have "books d1 = books d" by simp
  with assms show ?thesis
    by (simp add: return_book_def get_book_def split: option.splits)
qed

text \<open>
  Claim C4, as stated, for a book id that no book has: the request of a logged-in user
  ends in the 404 error, and the database is not the one before the request, because
  the session resolver has already saved the user's new \<open>last_seen\<close>.
\<close>

theorem borrow_book_not_found_changes_state:
  "999 \<notin> set (map book_id (books lib))
   \<and> borrow_book env0 ana_rq 999 lib =
       (Inl (HTTPError 404 ''Book not found.''), lib\<lparr>users := [ana\<lparr>last_seen := Some 2001\<rparr>, bob]\<rparr>)
   \<and> lib\<lparr>users := [ana\<lparr>last_seen := Some 2001\<rparr>, bob]\<rparr> \<noteq> lib"
  by (simp add: borrow_book_def get_book_def sqlite_int_def get_logged_in_user_def Let_def
      seen_recently_def save_user_def lib_def ana_def bob_def emma_def dune_def ana_rq_def env0_def)

text \<open>
  Claim C4, amended. In a request whose session the resolver accepts, returning the user
  \<open>u\<close> and the database \<open>d1\<close> (the database of the request with the row of \<open>u\<close> saved,
  its \<open>last_seen\<close> refreshed): when the given id is a signed 64-bit integer, from
  \<open>- 2 ^ 63\<close> to \<open>2 ^ 63 - 1\<close>, and no book has it, \<open>borrow_book\<close> fails with the 404
  error and the database is \<open>d1\<close>, with every book as before; when the id is outside
  this range, the lookup raises an \<^verbatim>\<open>OverflowError\<close> that nothing catches, not the 404
  error, and the database is \<open>d1\<close> as well; when the id is in the range and a book has
  it, the book is saved with \<open>borrowed_by\<close> the user and \<open>borrowed_at\<close> today's date,
  whatever its borrower was before, and it is in the table afterwards.
\<close>

theorem borrow_book_spec:
  assumes "get_logged_in_user e rq d = (Inr u, d1)"
  shows "d1 = save_user u d \<and> books d1 = books d
       \<and> (- (2 ^ 63) \<le> bid \<and> bid < 2 ^ 63 \<and> (\<forall>b\<in>set (books d). book_id b \<noteq> bid) \<longrightarrow>
            borrow_book e rq bid d = (Inl (HTTPError 404 ''Book not found.''), d1))
       \<and> (bid < - (2 ^ 63) \<or> 2 ^ 63 \<le> bid \<longrightarrow>
            borrow_book e rq bid d = (Inl (Uncaught OverflowError), d1))
       \<and> (\<forall>b. - (2 ^ 63) \<le> bid \<and> bid < 2 ^ 63
              \<and> find (\<lambda>b. book_id b = bid) (books d) = Some b \<longrightarrow>
            borrow_book e rq bid d =
              (Inr (u, b\<lparr>borrowed_by := Some (user_id u), borrowed_at := Some (today e)\<rparr>, ''30''),
               save_book (b\<lparr>borrowed_by := Some (user_id u), borrowed_at := Some (today e)\<rparr>) d1)
            \<and> b\<lparr>borrowed_by := Some (user_id u), borrowed_at := Some (today e)\<rparr>
                \<in> set (books (save_book (b\<lparr>borrowed_by := Some (user_id u),
                                             borrowed_at := Some (today e)\<rparr>) d1)))"
proof (intro conjI impI allI)
  from get_logged_in_user_Inr [OF assms] show d1: "d1 = save_user u d" by blast
  then show bd: "books d1 = books d" by simp
  {
    assume a: "- (2 ^ 63) \<le> bid \<and> bid < 2 ^ 63 \<and> (\<forall>b\<in>set (books d). book_id b \<noteq> bid)"
    then have r: "sqlite_int bid" and "\<forall>b\<in>set (books d). book_id b \<noteq> bid"
      by (simp_all add: sqlite_int_def)
    from this(2) have "find (\<lambda>b. book_id b = bid) (books d) = None" by (rule find_book_None)
    then show "borrow_book e rq bid d = (Inl (HTTPError 404 ''Book not found.''), d1)"
      by (simp add: borrow_book_resolved [OF assms r])
  }
  {
    assume "bid < - (2 ^ 63) \<or> 2 ^ 63 \<le> bid"
    then have "\<not> sqlite_int bid" by (auto simp add: sqlite_int_def)
    with assms show "borrow_book e rq bid d = (Inl (Uncaught OverflowError), d1)"
      by (rule borrow_book_overflow)
  }
  {
    fix b assume a: "- (2 ^ 63) \<le> bid \<and> bid < 2 ^ 63
              \<and> find (\<lambda>b. book_id b = bid) (books d) = Some b"
    then have r: "sqlite_int bid" and f: "find (\<lambda>b. book_id b = bid) (books d) = Some b"
      by (simp_all add: sqlite_int_def)
    let ?b' = "b\<lparr>borrowed_by := Some (user_id u), borrowed_at := Some (today e)\<rparr>"
    from f show "borrow_book e rq bid d = (Inr (u, ?b', ''30''), save_book ?b' d1)"
      by (simp add: borrow_book_resolved [OF assms r])
    from find_SomeD [OF f] have "b \<in> set (books d)" by (rule conjunct1)
    with bd have "b \<in> set (books d1)" by simp
    then have "(\<lambda>r. if book_id r = book_id ?b' then ?b' else r) b \<in> set (books (save_book ?b' d1))"
      unfolding save_book_def by simp
    then show "?b' \<in> set (books (save_book ?b' d1))" by simp
  }
qed

theorem borrow_book_spec_witness:
  "get_logged_in_user env0 ana_rq lib =
     (Inr (ana\<lparr>last_seen := Some 2001\<rparr>), lib\<lparr>users := [ana\<lparr>last_seen := Some 2001\<rparr>, bob]\<rparr>)
   \<and> find (\<lambda>b. book_id b = 1) (books lib) = Some dune
   \<and> borrowed_by dune = Some (user_id bob)
   \<and> borrow_book env0 ana_rq 1 lib =
       (Inr (ana\<lparr>last_seen := Some 2001\<rparr>,
             dune\<lparr>borrowed_by := Some 1, borrowed_at := Some (Date 738100)\<rparr>, ''30''),
        lib\<lparr>users := [ana\<lparr>last_seen := Some 2001\<rparr>, bob],
            books := [emma, dune\<lparr>borrowed_by := Some 1, borrowed_at := Some (Date 738100)\<rparr>]\<rparr>)
   \<and> borrow_book env0 ana_rq 3 lib =
       (Inl (HTTPError 404 ''Book not found.''), lib\<lparr>users := [ana\<lparr>last_seen := Some 2001\<rparr>, bob]\<rparr>)
   \<and> borrow_book env0 ana_rq 9223372036854775807 lib =
       (Inl (HTTPError 404 ''Book not found.''), lib\<lparr>users := [ana\<lparr>last_seen := Some 2001\<rparr>, bob]\<rparr>)
   \<and> borrow_book env0 ana_rq 9223372036854775808 lib =
       (Inl (Uncaught OverflowError), lib\<lparr>users := [ana\<lparr>last_seen := Some 2001\<rparr>, bob]\<rparr>)
   \<and> borrow_book env0 ana_rq (- 9223372036854775808) lib =
       (Inl (HTTPError 404 ''Book not found.''), lib\<lparr>users := [ana\<lparr>last_seen := Some 2001\<rparr>, bob]\<rparr>)
   \<and> borrow_book env0 ana_rq (- 9223372036854775809) lib =
       (Inl (Uncaught OverflowError), lib\<lparr>users := [ana\<lparr>last_seen := Some 2001\<rparr>, bob]\<rparr>)"
proof -
  have g: "get_logged_in_user env0 ana_rq lib =
     (Inr (ana\<lparr>last_seen := Some 2001\<rparr>), lib\<lparr>users := [ana\<lparr>last_seen := Some 2001\<rparr>, bob]\<rparr>)"
    by (simp add: get_logged_in_user_def Let_def seen_recently_def save_user_def
        lib_def ana_def bob_def ana_rq_def env0_def)
  have f: "find (\<lambda>b. book_id b = 1) (books lib) = Some dune" "borrowed_by dune = Some (user_id bob)"
    by (simp_all add: lib_def emma_def dune_def bob_def)
  have n: "\<forall>b\<in>set (books lib). book_id b \<noteq> 3"
    "\<forall>b\<in>set (books lib). book_id b \<noteq> 9223372036854775807"
    "\<forall>b\<in>set (books lib). book_id b \<noteq> - 9223372036854775808"
    by (simp_all add: lib_def emma_def dune_def)
  have s: "save_book (dune\<lparr>borrowed_by := Some 1, borrowed_at := Some (Date 738100)\<rparr>)
             (lib\<lparr>users := [ana\<lparr>last_seen := Some 2001\<rparr>, bob]\<rparr>) =
           lib\<lparr>users := [ana\<lparr>last_seen := Some 2001\<rparr>, bob],
               books := [emma, dune\<lparr>borrowed_by := Some 1, borrowed_at := Some (Date 738100)\<rparr>]\<rparr>"
    by (simp add: save_book_def lib_def emma_def dune_def)
  have i: "user_id (ana\<lparr>last_seen := Some 2001\<rparr>) = 1" "today env0 = Date 738100"
    by (simp_all add: ana_def env0_def)
  from borrow_book_spec [OF g, of 1] f(1)
  have b1: "borrow_book env0 ana_rq 1 lib =
       (Inr (ana\<lparr>last_seen := Some 2001\<rparr>,
             dune\<lparr>borrowed_by := Some 1, borrowed_at := Some (Date 738100)\<rparr>, ''30''),
        lib\<lparr>users := [ana\<lparr>last_seen := Some 2001\<rparr>, bob],
            books := [emma, dune\<lparr>borrowed_by := Some 1, borrowed_at := Some (Date 738100)\<rparr>]\<rparr>)"
    by (simp add: i s)
  from borrow_book_spec [OF g, of 3] n(1)
  have b3: "borrow_book env0 ana_rq 3 lib =
       (Inl (HTTPError 404 ''Book not found.''), lib\<lparr>users := [ana\<lparr>last_seen := Some 2001\<rparr>, bob]\<rparr>)"
    by simp
  from borrow_book_spec [OF g, of 9223372036854775807] n(2)
  have b4: "borrow_book env0 ana_rq 9223372036854775807 lib =
       (Inl (HTTPError 404 ''Book not found.''), lib\<lparr>users := [ana\<lparr>last_seen := Some 2001\<rparr>, bob]\<rparr>)"
    by simp
  from borrow_book_spec [OF g, of 9223372036854775808]
  have b5: "borrow_book env0 ana_rq 9223372036854775808 lib =
       (Inl (Uncaught OverflowError), lib\<lparr>users := [ana\<lparr>last_seen := Some 2001\<rparr>, bob]\<rparr>)"
    by simp
  from borrow_book_spec [OF g, of "- 9223372036854775808"] n(3)
  have b6: "borrow_book env0 ana_rq (- 9223372036854775808) lib =
       (Inl (HTTPError 404 ''Book not found.''), lib\<lparr>users := [ana\<lparr>last_seen := Some 2001\<rparr>, bob]\<rparr>)"
    by simp
  from borrow_book_spec [OF g, of "- 9223372036854775809"]
  have b7: "borrow_book env0 ana_rq (- 9223372036854775809) lib =
       (Inl (Uncaught OverflowError), lib\<lparr>users := [ana\<lparr>last_seen := Some 2001\<rparr>, bob]\<rparr>)"
    by simp
  from g f b1 b3 b4 b5 b6 b7 show ?thesis by (intro conjI)
qed

lemma frame_of_request:
  assumes "distinct (map user_id (users d))" and "distinct (map book_id (books d))"
  shows "snd (borrow_book e rq bid d) =
           (case fst (get_logged_in_user e rq d) of
              Inl x \<Rightarrow> d
            | Inr u \<Rightarrow>
                d\<lparr>users := map (\<lambda>r. if user_id r = user_id u then r\<lparr>last_seen := Some (time2 e)\<rparr> else r)
                               (users d),
                  books := map (\<lambda>b. if sqlite_int bid \<and> book_id b = bid
                                     then b\<lparr>borrowed_by := Some (user_id u), borrowed_at := Some (today e)\<rparr>
                                     else b) (books d)\<rparr>)
       \<and> snd (return_book e rq bid d) =
           (case fst (get_logged_in_user e rq d) of
              Inl x \<Rightarrow> d
            | Inr u \<Rightarrow>
                d\<lparr>users := map (\<lambda>r. if user_id r = user_id u then r\<lparr>last_seen := Some (time2 e)\<rparr> else r)
                               (users d),
                  books := map (\<lambda>b. if sqlite_int bid \<and> book_id b = bid
                                     then b\<lparr>borrowed_by := None, borrowed_at := None\<rparr>
                                     else b) (books d)\<rparr>)"
proof (cases e rq d rule: resolver_cases)
  case rejected
  then show ?thesis
    by (simp add: borrow_book_rejected return_book_rejected)
next
  case (resolved u0)
  let ?u = "u0\<lparr>last_seen := Some (time2 e)\<rparr>"
  let ?d1 = "save_user ?u d"
  note g = resolved(6)
  have d1: "?d1 = d\<lparr>users := map (\<lambda>r. if user_id r = user_id u0 then r\<lparr>last_seen := Some (time2 e)\<rparr> else r)
                                  (users d)\<rparr>"
    using assms(1) resolved(1) by (rule save_user_resolved)
  have dist1: "distinct (map book_id (books ?d1))" using assms(2) by simp
  show ?thesis
  proof (cases "sqlite_int bid")
    case False
    then show ?thesis
      by (simp add: g borrow_book_overflow [OF g False] return_book_overflow [OF g False] d1)
  next
    case True
    show ?thesis
    proof (cases "find (\<lambda>b. book_id b = bid) (books d)")
      case None
      then have "\<forall>b\<in>set (books d). book_id b \<noteq> bid"
        unfolding find_None_iff by blast
      then have "\<And>g. map (\<lambda>r. if book_id r = bid then g r else r) (books d) = books d"
        by (rule map_update_absent)
      with None show ?thesis
        by (simp add: g True borrow_book_resolved [OF g True] return_book_resolved [OF g True] d1)
    next
      case (Some b)
      from find_SomeD [OF Some] have mem: "b \<in> set (books d)" and bid: "book_id b = bid"
        by (rule conjunct1, rule conjunct2)
      from mem have mem1: "b \<in> set (books ?d1)" by simp
      have sb: "save_book (b\<lparr>borrowed_by := x, borrowed_at := y\<rparr>) ?d1 =
          ?d1\<lparr>books := map (\<lambda>r. if book_id r = bid then r\<lparr>borrowed_by := x, borrowed_at := y\<rparr> else r)
                           (books d)\<rparr>" for x y
        using save_book_found [OF dist1 mem1] by (simp add: bid)
      from Some show ?thesis
        by (simp add: g True borrow_book_resolved [OF g True] return_book_resolved [OF g True] sb)
           (simp add: d1)
    qed
  qed
qed

text \<open>
  Claim C9, as stated, on a request of a logged-in user: \<open>borrow_book\<close> changes a row
  of the user table (the \<open>last_seen\<close> of the user who borrows), and so does \<open>return_book\<close>.
\<close>

theorem borrow_return_change_user_row:
  "users (snd (borrow_book env0 ana_rq 2 lib)) = [ana\<lparr>last_seen := Some 2001\<rparr>, bob]
   \<and> users (snd (return_book env0 ana_rq 1 lib)) = [ana\<lparr>last_seen := Some 2001\<rparr>, bob]
   \<and> users lib = [ana, bob] \<and> ana\<lparr>last_seen := Some 2001\<rparr> \<noteq> ana"
  by (simp add: borrow_book_def return_book_def get_book_def sqlite_int_def get_logged_in_user_def
      Let_def seen_recently_def save_user_def save_book_def lib_def ana_def bob_def emma_def
      dune_def ana_rq_def env0_def)

text \<open>
  Claim C9, amended. In a database with distinct primary keys, \<open>borrow_book\<close> and
  \<open>return_book\<close> change nothing when the session resolver rejects the request.
  Otherwise, with \<open>u\<close> the user the resolver returns, the database after the request
  is the one before with two changes only: in the user table the row of \<open>u\<close> has
  \<open>last_seen\<close> set by the resolver to the clock reading, and in the book table the row
  with the given id, if there is one, has \<open>borrowed_by\<close> and \<open>borrowed_at\<close> set (to the
  user and today's date by \<open>borrow_book\<close>, to null by \<open>return_book\<close>). Every other
  column of that book, every other book, every other user, the authors and the
  associations of books and authors are as before. An id that is not a signed
  64-bit integer, from \<open>- 2 ^ 63\<close> to \<open>2 ^ 63 - 1\<close>, is the id of no row the lookup can
  reach: the lookup raises and no book is changed.
\<close>

theorem borrow_return_frame:
  assumes "distinct (map user_id (users d))" and "distinct (map book_id (books d))"
  shows "snd (borrow_book e rq bid d) =
           (case fst (get_logged_in_user e rq d) of
              Inl x \<Rightarrow> d
            | Inr u \<Rightarrow>
                d\<lparr>users := map (\<lambda>r. if user_id r = user_id u then r\<lparr>last_seen := Some (time2 e)\<rparr> else r)
                               (users d),
                  books := map (\<lambda>b. if - (2 ^ 63) \<le> bid \<and> bid < 2 ^ 63 \<and> book_id b = bid
                                     then b\<lparr>borrowed_by := Some (user_id u), borrowed_at := Some (today e)\<rparr>
                                     else b) (books d)\<rparr>)
       \<and> snd (return_book e rq bid d) =
           (case fst (get_logged_in_user e rq d) of
              Inl x \<Rightarrow> d
            | Inr u \<Rightarrow>
                d\<lparr>users := map (\<lambda>r. if user_id r = user_id u then r\<lparr>last_seen := Some (time2 e)\<rparr> else r)
                               (users d),
                  books := map (\<lambda>b. if - (2 ^ 63) \<le> bid \<and> bid < 2 ^ 63 \<and> book_id b = bid
                                     then b\<lparr>borrowed_by := None, borrowed_at := None\<rparr>
                                     else b) (books d)\<rparr>)"
  using frame_of_request [OF assms, of e rq bid] unfolding sqlite_int_def conj_assoc .

theorem borrow_return_frame_witness:
  "distinct (map user_id (users lib)) \<and> distinct (map book_id (books lib))
   \<and> snd (borrow_book env0 ana_rq 1 lib) =
       lib\<lparr>users := [ana\<lparr>last_seen := Some 2001\<rparr>, bob],
           books := [emma, dune\<lparr>borrowed_by := Some 1, borrowed_at := Some (Date 738100)\<rparr>]\<rparr>
   \<and> snd (return_book env0 ana_rq 1 lib) =
       lib\<lparr>users := [ana\<lparr>last_seen := Some 2001\<rparr>, bob],
           books := [emma, dune\<lparr>borrowed_by := None, borrowed_at := None\<rparr>]\<rparr>
   \<and> snd (return_book env0 ana_rq 9223372036854775808 lib) =
       lib\<lparr>users := [ana\<lparr>last_seen := Some 2001\<rparr>, bob]\<rparr>"
proof -
  have h: "distinct (map user_id (users lib))" "distinct (map book_id (books lib))"
    by (simp_all add: lib_def ana_def bob_def emma_def dune_def)
  have g: "fst (get_logged_in_user env0 ana_rq lib) = Inr (ana\<lparr>last_seen := Some 2001\<rparr>)"
    by (simp add: get_logged_in_user_def Let_def seen_recently_def
        lib_def ana_def bob_def ana_rq_def env0_def)
  have a: "snd (borrow_book env0 ana_rq 1 lib) =
       lib\<lparr>users := [ana\<lparr>last_seen := Some 2001\<rparr>, bob],
           books := [emma, dune\<lparr>borrowed_by := Some 1, borrowed_at := Some (Date 738100)\<rparr>]\<rparr>
   \<and> snd (return_book env0 ana_rq 1 lib) =
       lib\<lparr>users := [ana\<lparr>last_seen := Some 2001\<rparr>, bob],
           books := [emma, dune\<lparr>borrowed_by := None, borrowed_at := None\<rparr>]\<rparr>"
    using borrow_return_frame [OF h, of env0 ana_rq 1]
    by (simp add: g) (simp add: lib_def ana_def bob_def emma_def dune_def env0_def)
  have b: "snd (return_book env0 ana_rq 9223372036854775808 lib) =
       lib\<lparr>users := [ana\<lparr>last_seen := Some 2001\<rparr>, bob]\<rparr>"
    using borrow_return_frame [OF h, of env0 ana_rq 9223372036854775808]
    by (simp add: g) (simp add: lib_def ana_def bob_def emma_def dune_def env0_def)
  from h a b show ?thesis by simp
qed

section \<open>The borrowing invariant\<close>


lemma home_snd: "snd (home e rq d) = snd (get_logged_in_user e rq d)"
  by (simp add: home_def split: prod.splits sum.splits)

lemma borrow_books_snd: "snd (borrow_books e rq d) = snd (get_logged_in_user e rq d)"
  by (simp add: borrow_books_def split: prod.splits sum.splits)









lemma run_Cons: "run (r # rs) d = run rs (handle r d)"
  by (simp add: run_def)

lemma run_Nil: "run [] d = d"
  by (simp add: run_def)




section \<open>The list of books to borrow\<close>


section \<open>Logging out\<close>

lemma fold_max_ge: "(a::int) \<le> fold max ks a"
proof (induction ks arbitrary: a)
  case Nil
  show ?case by simp
next
  case (Cons k ks)
  have "a \<le> max k a" by simp
  also have "\<dots> \<le> fold max ks (max k a)" by (rule Cons.IH)
  finally show ?case by simp
qed

lemma fold_max_upper: "k \<in> set ks \<Longrightarrow> (k::int) \<le> fold max ks a"
proof (induction ks arbitrary: a)
  case Nil
  then show ?case by simp
next
  case (Cons x ks)
  show ?case
  proof (cases "k = x")
    case True
    have "k \<le> max x a" using True by simp
    also have "\<dots> \<le> fold max ks (max x a)" by (rule fold_max_ge)
    finally show ?thesis by simp
  next
    case False
    with Cons.prems have "k \<in> set ks" by simp
    then have "k \<le> fold max ks (max x a)" by (rule Cons.IH)
    then show ?thesis by simp
  qed
qed

lemma next_id_fresh: "next_id ks \<notin> set ks"
proof (cases ks)
  case Nil
  then show ?thesis by simp
next
  case (Cons k ks')
  show ?thesis
  proof
    assume "next_id ks \<in> set ks"
    with Cons have "next_id ks = k \<or> next_id ks \<in> set ks'" by simp
    then have "next_id ks \<le> fold max ks' k"
    proof
      assume "next_id ks = k"
      then show ?thesis by (simp add: fold_max_ge)
    next
      assume "next_id ks \<in> set ks'"
      then show ?thesis by (rule fold_max_upper)
    qed
    with Cons show False by (simp add: next_id_def)
  qed
qed

lemma save_user_ids: "map user_id (users (save_user u d)) = map user_id (users d)"
  by (simp add: save_user_def comp_def if_distrib [of user_id] cong: if_cong)

lemma logged_out_users:
  "users d' = users d \<Longrightarrow> logged_out em pw d' = logged_out em pw d"
  by (simp add: logged_out_def)

lemma save_user_logged_out:
  assumes j: "logged_out em pw d" and mem: "u0 \<in> set (users d)"
    and id: "user_id u' = user_id u0" and em: "email u' = email u0"
    and pw: "password u' = password u0"
    and li: "logged_in u' \<Longrightarrow> \<not> (email u0 = em \<and> password u0 = pw)"
  shows "logged_out em pw (save_user u' d)"
proof -
  let ?f = "\<lambda>r. if user_id r = user_id u' then u' else r"
  from j have dist: "distinct (map user_id (users d))"
    and ex: "em \<in> set (map email (users d))"
    and out: "\<forall>r\<in>set (users d). email r = em \<and> password r = pw \<longrightarrow> \<not> logged_in r"
    by (simp_all add: logged_out_def)
  have same: "r = u0" if "r \<in> set (users d)" "user_id r = user_id u'" for r
  proof -
    from that(2) id have "user_id r = user_id u0" by simp
    with dist that(1) mem show ?thesis by (rule distinct_map_eqD)
  qed
  have e: "email (?f r) = email r" and p: "password (?f r) = password r"
    if "r \<in> set (users d)" for r
    using same [OF that] em pw by (cases "user_id r = user_id u'"; simp)+
  have "map email (map ?f (users d)) = map email (users d)"
    unfolding map_map comp_def by (rule map_cong [OF refl]) (rule e)
  with ex have ex': "em \<in> set (map email (users (save_user u' d)))"
    by (simp add: save_user_def)
  have out': "\<forall>r\<in>set (users (save_user u' d)). email r = em \<and> password r = pw \<longrightarrow> \<not> logged_in r"
  proof (intro ballI impI)
    fix r' assume "r' \<in> set (users (save_user u' d))" and c: "email r' = em \<and> password r' = pw"
    then have "r' \<in> ?f ` set (users d)" by (simp add: save_user_def)
    then obtain r where r: "r \<in> set (users d)" and r': "r' = ?f r" by (rule imageE)
    show "\<not> logged_in r'"
    proof (cases "user_id r = user_id u'")
      case True
      with r' have ru: "r' = u'" by simp
      from c ru em pw have "email u0 = em \<and> password u0 = pw" by simp
      with li have "\<not> logged_in u'" by blast
      with ru show ?thesis by simp
    next
      case False
      with r' have "r' = r" by simp
      with c r out show ?thesis by simp
    qed
  qed
  from dist have "distinct (map user_id (users (save_user u' d)))"
    by (simp only: save_user_ids)
  with ex' out' show ?thesis by (simp add: logged_out_def)
qed

lemma resolver_logged_out:
  assumes "logged_out em pw d"
  shows "logged_out em pw (snd (get_logged_in_user e rq d))"
proof (cases e rq d rule: resolver_cases)
  case rejected
  with assms show ?thesis by simp
next
  case (resolved u0)
  from assms resolved(1,2) have n: "\<not> (email u0 = em \<and> password u0 = pw)"
    unfolding logged_out_def by blast
  from assms resolved(1) have "logged_out em pw (save_user (u0\<lparr>last_seen := Some (time2 e)\<rparr>) d)"
    by (rule save_user_logged_out) (simp_all add: n)
  with resolved(6) show ?thesis by simp
qed

lemma resolver_rejects_logged_out:
  assumes "logged_out em pw d"
    and "cookies rq ''user-email'' = Some em" and "cookies rq ''password'' = Some pw"
  shows "get_logged_in_user e rq d = (Inl (HTTPRedirect ''/login''), d)"
proof (cases e rq d rule: resolver_cases)
  case rejected
  then show ?thesis .
next
  case (resolved u0)
  from resolved(3,4) assms(2,3) have "email u0 = em \<and> password u0 = pw" by simp
  with assms(1) resolved(1) have "\<not> logged_in u0" unfolding logged_out_def by blast
  with resolved(2) show ?thesis by contradiction
qed

lemma borrow_book_users: "users (snd (borrow_book e rq bid d)) = users (snd (get_logged_in_user e rq d))"
proof (cases e rq d rule: resolver_cases)
  case rejected
  then show ?thesis by (simp add: borrow_book_rejected)
next
  case (resolved u0)
  note g = resolved(6)
  show ?thesis
  proof (cases "sqlite_int bid")
    case False
    then show ?thesis by (simp add: g borrow_book_overflow [OF g False])
  next
    case True
    show ?thesis
      by (cases "find (\<lambda>b. book_id b = bid) (books d)")
        (simp_all add: g borrow_book_resolved [OF g True])
  qed
qed

lemma return_book_users: "users (snd (return_book e rq bid d)) = users (snd (get_logged_in_user e rq d))"
proof (cases e rq d rule: resolver_cases)
  case rejected
  then show ?thesis by (simp add: return_book_rejected)
next
  case (resolved u0)
  note g = resolved(6)
  show ?thesis
  proof (cases "sqlite_int bid")
    case False
    then show ?thesis by (simp add: g return_book_overflow [OF g False])
  next
    case True
    show ?thesis
      by (cases "find (\<lambda>b. book_id b = bid) (books d)")
        (simp_all add: g return_book_resolved [OF g True])
  qed
qed

lemma logout_logged_out:
  assumes "logged_out em pw d"
  shows "logged_out em pw (snd (logout e rq d))"
proof (cases e rq d rule: resolver_cases)
  case rejected
  with assms show ?thesis by (simp add: logout_def)
next
  case (resolved u0)
  let ?u = "u0\<lparr>last_seen := Some (time2 e)\<rparr>"
  from resolver_logged_out [OF assms, of e rq] resolved(6)
  have j1: "logged_out em pw (save_user ?u d)" by simp
  from resolved(1) have "?u \<in> set (users (save_user ?u d))"
    by (rule saved_user_mem) simp
  with j1 have "logged_out em pw (save_user (?u\<lparr>logged_in := False\<rparr>) (save_user ?u d))"
    by (rule save_user_logged_out) simp_all
  with resolved(6) show ?thesis by (simp add: logout_def)
qed

lemma login_logged_out:
  assumes "logged_out em pw d"
    and "\<not> (forms_get rq ''email'' '''' = em \<and> forms_get rq ''password'' '''' = pw)"
  shows "logged_out em pw (snd (snd (login e rq d)))"
proof (cases "find (\<lambda>u. email u = forms_get rq ''email'' ''''
                        \<and> password u = forms_get rq ''password'' '''') (users d)")
  case None
  with assms(1) show ?thesis by (simp add: login_cases)
next
  case (Some m)
  from find_SomeD [OF Some] have mem: "m \<in> set (users d)"
    and c: "email m = forms_get rq ''email'' '''' \<and> password m = forms_get rq ''password'' ''''"
    by (rule conjunct1, rule conjunct2)
  from c assms(2) have n: "\<not> (email m = em \<and> password m = pw)" by simp
  from assms(1) mem
  have "logged_out em pw (save_user (m\<lparr>logged_in := True, last_seen := Some (time1 e)\<rparr>) d)"
    by (rule save_user_logged_out) (simp_all add: n)
  with Some assms(1) show ?thesis by (simp add: login_cases)
qed

lemma register_logged_out:
  assumes "logged_out em pw d"
  shows "logged_out em pw (snd (snd (register e rq d)))"
proof (cases "first_missing rq")
  case (Some msg)
  with assms show ?thesis by (simp add: register_missing)
next
  case None
  let ?em = "forms_get rq ''email'' ''''"
  let ?c = "create_user (forms_get rq ''first_name'' '''') (forms_get rq ''last_name'' '''')
             ?em (forms_get rq ''password'' '''') d"
  show ?thesis
  proof (cases "?em \<in> set (map email (users d))")
    case True
    then have "?c = None" by (simp add: create_user_def)
    with None assms show ?thesis by (simp add: register_complete)
  next
    case False
    let ?u = "\<lparr>user_id = next_id (map user_id (users d)), email = ?em,
                first_name = forms_get rq ''first_name'' '''',
                last_name = forms_get rq ''last_name'' '''',
                password = forms_get rq ''password'' '''', logged_in = False, last_seen = None,
                is_admin = False\<rparr>"
    let ?d1 = "d\<lparr>users := users d @ [?u]\<rparr>"
    from False have c: "?c = Some (?u, ?d1)" by (simp add: create_user_def Let_def)
    from assms have dist: "distinct (map user_id (users d))"
      and ex: "em \<in> set (map email (users d))"
      and out: "\<forall>r\<in>set (users d). email r = em \<and> password r = pw \<longrightarrow> \<not> logged_in r"
      by (simp_all add: logged_out_def)
    from ex False have ne: "?em \<noteq> em" by blast
    have "next_id (map user_id (users d)) \<notin> set (map user_id (users d))"
      by (rule next_id_fresh)
    with dist have "distinct (map user_id (users ?d1))" by simp
    moreover from ex have "em \<in> set (map email (users ?d1))" by simp
    moreover from out have "\<forall>r\<in>set (users ?d1). email r = em \<and> password r = pw \<longrightarrow> \<not> logged_in r"
      by simp
    ultimately have j1: "logged_out em pw ?d1" by (simp add: logged_out_def)
    have "?u \<in> set (users ?d1)" by simp
    with j1 have "logged_out em pw (save_user (?u\<lparr>logged_in := True, last_seen := Some (time1 e)\<rparr>) ?d1)"
      by (rule save_user_logged_out) (simp_all add: ne)
    with None c j1 show ?thesis by (simp add: register_complete)
  qed
qed

lemma handle_logged_out:
  assumes "logged_out em pw d" and "\<not> login_as em pw r"
  shows "logged_out em pw (handle r d)"
proof (cases r)
  case (fields e rq rt)
  have res: "logged_out em pw (snd (get_logged_in_user e rq d))"
    using assms(1) by (rule resolver_logged_out)
  show ?thesis
  proof (cases rt)
    case Home
    with fields res show ?thesis by (simp add: home_snd)
  next
    case BorrowBooks
    with fields res show ?thesis by (simp add: borrow_books_snd)
  next
    case (BorrowBook bid)
    from res have "logged_out em pw (snd (borrow_book e rq bid d))"
      by (simp add: logged_out_users [OF borrow_book_users])
    with fields BorrowBook show ?thesis by simp
  next
    case (ReturnBook bid)
    from res have "logged_out em pw (snd (return_book e rq bid d))"
      by (simp add: logged_out_users [OF return_book_users])
    with fields ReturnBook show ?thesis by simp
  next
    case Logout
    with fields logout_logged_out [OF assms(1), of e rq] show ?thesis by simp
  next
    case Register
    with fields register_logged_out [OF assms(1), of e rq] show ?thesis by simp
  next
    case Login
    with fields assms(2)
    have "\<not> (forms_get rq ''email'' '''' = em \<and> forms_get rq ''password'' '''' = pw)"
      by (simp add: login_as_def)
    with assms(1) have "logged_out em pw (snd (snd (login e rq d)))"
      by (rule login_logged_out)
    with fields Login show ?thesis by simp
  qed
qed

lemma run_logged_out:
  assumes "logged_out em pw d" and "\<forall>r\<in>set rs. \<not> login_as em pw r"
  shows "logged_out em pw (run rs d)"
  using assms
proof (induction rs arbitrary: d)
  case Nil
  then show ?case by (simp add: run_Nil)
next
  case (Cons r rs)
  from Cons.prems(2) have "\<not> login_as em pw r" and rest: "\<forall>r\<in>set rs. \<not> login_as em pw r"
    by simp_all
  with Cons.prems(1) have "logged_out em pw (handle r d)" by (simp add: handle_logged_out)
  then have "logged_out em pw (run rs (handle r d))" using rest by (rule Cons.IH)
  then show ?case by (simp add: run_Cons)
qed

lemma save_user_rows:
  assumes "r \<in> set (users (save_user x d))"
  shows "r = x \<or> (r \<in> set (users d) \<and> user_id r \<noteq> user_id x)"
proof -
  from assms have "r \<in> (\<lambda>r. if user_id r = user_id x then x else r) ` set (users d)"
    by (simp add: save_user_def)
  then obtain r0 where "r0 \<in> set (users d)" and "r = (if user_id r0 = user_id x then x else r0)"
    by (rule imageE)
  then show ?thesis by (cases "user_id r0 = user_id x") simp_all
qed

lemma logout_resolved_logged_out:
  assumes ids: "distinct (map user_id (users d))" and ems: "distinct (map email (users d))"
    and g: "get_logged_in_user e rq d = (Inr u, d1)"
  shows "logged_out (email u) (password u) (save_user (u\<lparr>logged_in := False\<rparr>) d1)"
    and "u\<lparr>logged_in := False\<rparr> \<in> set (users (save_user (u\<lparr>logged_in := False\<rparr>) d1))"
proof -
  from get_logged_in_user_Inr [OF g] obtain u0 where
    mem: "u0 \<in> set (users d)" and
    f: "logged_in u0 \<and> Some (email u0) = cookies rq ''user-email''
           \<and> Some (password u0) = cookies rq ''password''
           \<and> seen_recently (time1 e) (last_seen u0)
           \<and> u = u0\<lparr>last_seen := Some (time2 e)\<rparr> \<and> d1 = save_user u d" ..
  from f have u: "u = u0\<lparr>last_seen := Some (time2 e)\<rparr>" and d1: "d1 = save_user u d"
    by simp_all
  let ?v = "u\<lparr>logged_in := False\<rparr>"
  let ?d2 = "save_user ?v d1"
  from u have idu: "user_id u = user_id u0" and emu: "email u = email u0" by simp_all
  from mem idu have "u \<in> set (users (save_user u d))" by (rule saved_user_mem)
  with d1 have m1: "u \<in> set (users d1)" by simp
  then show m2: "?v \<in> set (users ?d2)" by (rule saved_user_mem) simp
  have "distinct (map user_id (users ?d2))"
    using ids unfolding d1 by (simp only: save_user_ids)
  moreover from m2 have "email ?v \<in> email ` set (users ?d2)" by (rule imageI)
  then have "email u \<in> set (map email (users ?d2))" by simp
  moreover have "\<forall>r\<in>set (users ?d2). email r = email u \<and> password r = password u \<longrightarrow> \<not> logged_in r"
  proof (intro ballI impI)
    fix r assume r: "r \<in> set (users ?d2)" and c: "email r = email u \<and> password r = password u"
    from save_user_rows [OF r] show "\<not> logged_in r"
    proof
      assume "r = ?v"
      then show ?thesis by simp
    next
      assume a: "r \<in> set (users d1) \<and> user_id r \<noteq> user_id ?v"
      then have "r \<in> set (users (save_user u d))" and nid: "user_id r \<noteq> user_id u"
        using d1 by simp_all
      from save_user_rows [OF this(1)] nid have "r \<in> set (users d)" by blast
      moreover from c emu have "email r = email u0" by simp
      ultimately have "r = u0" using ems mem by (intro distinct_map_eqD [of email "users d"])
      with nid idu show ?thesis by simp
    qed
  qed
  ultimately show "logged_out (email u) (password u) ?d2"
    by (simp add: logged_out_def)
qed

text \<open>
  Claim C10, as stated, on the logout of the user \<open>ana\<close>: the \<open>last_seen\<close> of the row was 1000
  before the request and is 2001, the clock of the request, after it. \<open>logout\<close> does
  not leave \<open>last_seen\<close> untouched, since it calls the session resolver first.
\<close>

theorem logout_refreshes_last_seen:
  "users lib = [ana, bob] \<and> last_seen ana = Some 1000
   \<and> users (snd (logout env0 ana_rq lib)) = [ana\<lparr>logged_in := False, last_seen := Some 2001\<rparr>, bob]"
  by (simp add: logout_def get_logged_in_user_def Let_def seen_recently_def save_user_def
      lib_def ana_def bob_def ana_rq_def env0_def)

text \<open>
  Claim C10, amended. In a user table with distinct primary keys and distinct emails,
  when the resolver accepts the session of a logout request and returns the user \<open>u\<close>:
  \<open>u\<close> is logged in and carries the \<open>last_seen\<close> that the resolver has just refreshed;
  \<open>logout\<close> redirects to the login page and saves the row of \<open>u\<close> with \<open>logged_in\<close>
  false, setting no cookie; and after any sequence of later requests that has no login
  with the email and the password of \<open>u\<close>, the resolver rejects, at any time, every
  request that presents the cookie pair of \<open>u\<close>, and leaves the database as it is.
\<close>

theorem logout_then_rejected:
  assumes "distinct (map user_id (users d))" and "distinct (map email (users d))"
    and "get_logged_in_user e rq d = (Inr u, d1)"
    and "\<forall>r\<in>set rs. \<not> login_as (email u) (password u) r"
    and "cookies rq' ''user-email'' = Some (email u)"
    and "cookies rq' ''password'' = Some (password u)"
  shows "logged_in u \<and> last_seen u = Some (time2 e)
       \<and> logout e rq d = (HTTPRedirect ''/login'', save_user (u\<lparr>logged_in := False\<rparr>) d1)
       \<and> u\<lparr>logged_in := False\<rparr> \<in> set (users (snd (logout e rq d)))
       \<and> get_logged_in_user e' rq' (run rs (snd (logout e rq d))) =
           (Inl (HTTPRedirect ''/login''), run rs (snd (logout e rq d)))"
proof -
  from get_logged_in_user_Inr [OF assms(3)] obtain u0 where
    "u0 \<in> set (users d)" and
    f: "logged_in u0 \<and> Some (email u0) = cookies rq ''user-email''
           \<and> Some (password u0) = cookies rq ''password''
           \<and> seen_recently (time1 e) (last_seen u0)
           \<and> u = u0\<lparr>last_seen := Some (time2 e)\<rparr> \<and> d1 = save_user u d" ..
  from f have a: "logged_in u" and b: "last_seen u = Some (time2 e)" by simp_all
  let ?d2 = "save_user (u\<lparr>logged_in := False\<rparr>) d1"
  have c: "logout e rq d = (HTTPRedirect ''/login'', ?d2)"
    using assms(3) by (simp add: logout_def)
  from logout_resolved_logged_out [OF assms(1-3)]
  have j: "logged_out (email u) (password u) ?d2"
    and m: "u\<lparr>logged_in := False\<rparr> \<in> set (users ?d2)" .
  from j assms(4) have "logged_out (email u) (password u) (run rs ?d2)"
    by (rule run_logged_out)
  then have "get_logged_in_user e' rq' (run rs ?d2) = (Inl (HTTPRedirect ''/login''), run rs ?d2)"
    using assms(5,6) by (rule resolver_rejects_logged_out)
  with a b c m show ?thesis by simp
qed

theorem logout_then_rejected_witness:
  "distinct (map user_id (users lib)) \<and> distinct (map email (users lib))
   \<and> get_logged_in_user env0 ana_rq lib =
       (Inr (ana\<lparr>last_seen := Some 2001\<rparr>), lib\<lparr>users := [ana\<lparr>last_seen := Some 2001\<rparr>, bob]\<rparr>)
   \<and> \<not> login_as ''ana@lib.org'' ''pw1'' (env0, ana_rq, Home)
   \<and> \<not> login_as ''ana@lib.org'' ''pw1'' (env0, ana_rq, BorrowBook 1)
   \<and> cookies ana_rq ''user-email'' = Some ''ana@lib.org''
   \<and> cookies ana_rq ''password'' = Some ''pw1''
   \<and> logout env0 ana_rq lib =
       (HTTPRedirect ''/login'', lib\<lparr>users := [ana\<lparr>last_seen := Some 2001, logged_in := False\<rparr>, bob]\<rparr>)
   \<and> get_logged_in_user (env0\<lparr>time1 := 2002\<rparr>) ana_rq
        (run [(env0, ana_rq, Home), (env0, ana_rq, BorrowBook 1)] (snd (logout env0 ana_rq lib))) =
       (Inl (HTTPRedirect ''/login''),
        run [(env0, ana_rq, Home), (env0, ana_rq, BorrowBook 1)] (snd (logout env0 ana_rq lib)))"
proof -
  let ?u = "ana\<lparr>last_seen := Some 2001\<rparr>"
  let ?rs = "[(env0, ana_rq, Home), (env0, ana_rq, BorrowBook 1)]"
  have h: "distinct (map user_id (users lib))" "distinct (map email (users lib))"
    by (simp_all add: lib_def ana_def bob_def)
  have g: "get_logged_in_user env0 ana_rq lib =
       (Inr ?u, lib\<lparr>users := [ana\<lparr>last_seen := Some 2001\<rparr>, bob]\<rparr>)"
    by (simp add: get_logged_in_user_def Let_def seen_recently_def save_user_def
        lib_def ana_def bob_def ana_rq_def env0_def)
  have cr: "email ?u = ''ana@lib.org''" "password ?u = ''pw1''"
    by (simp_all add: ana_def)
  have n: "\<not> login_as ''ana@lib.org'' ''pw1'' (env0, ana_rq, Home)"
    "\<not> login_as ''ana@lib.org'' ''pw1'' (env0, ana_rq, BorrowBook 1)"
    by (simp_all add: login_as_def)
  then have n': "\<forall>r\<in>set ?rs. \<not> login_as (email ?u) (password ?u) r"
    by (simp add: cr)
  have k0: "cookies ana_rq ''user-email'' = Some ''ana@lib.org''"
    "cookies ana_rq ''password'' = Some ''pw1''"
    by (simp_all add: ana_rq_def)
  then have k: "cookies ana_rq ''user-email'' = Some (email ?u)"
    "cookies ana_rq ''password'' = Some (password ?u)"
    by (simp_all add: cr)
  have s: "save_user (?u\<lparr>logged_in := False\<rparr>) (lib\<lparr>users := [ana\<lparr>last_seen := Some 2001\<rparr>, bob]\<rparr>)
      = lib\<lparr>users := [ana\<lparr>last_seen := Some 2001, logged_in := False\<rparr>, bob]\<rparr>"
    by (simp add: save_user_def ana_def bob_def)
  note t = logout_then_rejected [OF h g n' k, of "env0\<lparr>time1 := 2002\<rparr>"]
  from t have "logout env0 ana_rq lib =
       (HTTPRedirect ''/login'',
        save_user (?u\<lparr>logged_in := False\<rparr>) (lib\<lparr>users := [ana\<lparr>last_seen := Some 2001\<rparr>, bob]\<rparr>))"
    by (elim conjE)
  then have l: "logout env0 ana_rq lib =
       (HTTPRedirect ''/login'', lib\<lparr>users := [ana\<lparr>last_seen := Some 2001, logged_in := False\<rparr>, bob]\<rparr>)"
    by (simp only: s)
  from t have r: "get_logged_in_user (env0\<lparr>time1 := 2002\<rparr>) ana_rq (run ?rs (snd (logout env0 ana_rq lib))) =
       (Inl (HTTPRedirect ''/login''), run ?rs (snd (logout env0 ana_rq lib)))"
    by (elim conjE)
  from h g n k0 l r show ?thesis by (intro conjI)
qed

end
